theory Spec2Isabelle
  imports Complex_Main
begin

section \<open>Data model of roomModeCalculations.ts\<close>

text \<open>
  JavaScript numbers are modelled as mathematical reals: arithmetic is exact. Where the
  source divides, the model writes the division only under the guard that the source has
  for it, so that the HOL convention \<open>x / 0 = 0\<close> is never relied on. Where the source
  tests a result with \<open>isFinite\<close>/\<open>isNaN\<close>, the model says when that result is not a
  finite double: in \<open>calculateBandResponse\<close> this is the overflow of \<open>Math.pow\<close>, kept
  as the value \<open>None\<close>.

  Record fields keep the source's names where a selector of that name does not get in the
  way of the variables of the functions below: \<open>x, y, z\<close> of a Point are
  \<open>pt_x, pt_y, pt_z\<close>, \<open>q\<close> and \<open>type\<close> of an EQBand are \<open>qfactor\<close> and \<open>btype\<close>.
\<close>

record Point =
  pt_x :: real
  pt_y :: real
  pt_z :: real

record RoomDimensions =
  dim_L :: real
  dim_W :: real
  dim_H :: real

record ModeResponse =
  freq :: real
  db :: real

datatype FilterType = Peak | Highpass | Lowpass | Shelf

record EQBand =
  frequency :: real
  gain :: real
  qfactor :: real
  btype :: FilterType

record EQSettings =
  bands :: "EQBand list"
  enabled :: bool
  maxBoost :: real
  maxCut :: real
  smoothing :: real

text \<open>\<open>Math.round\<close>: the nearest integer, halves rounded towards plus infinity.\<close>

definition js_round :: "real \<Rightarrow> real" where
  "js_round v = real_of_int \<lfloor>v + 1 / 2\<rfloor>"

section \<open>EQ application (filter bank)\<close>

text \<open>\<open>Math.pow(10, e)\<close> in double precision. A power at or beyond
  \<open>2^1024 - 2^970\<close>, the point from which rounding to nearest leaves the finite doubles,
  is \<open>Infinity\<close>; the model returns \<open>None\<close> for it.\<close>

definition POW_OVERFLOW :: real where
  "POW_OVERFLOW = 2 ^ 1024 - 2 ^ 970"

definition js_pow10 :: "real \<Rightarrow> real option" where
  "js_pow10 e = (if POW_OVERFLOW \<le> 10 powr e then None else Some (10 powr e))"

text \<open>\<open>calculateBandResponse(freq, band)\<close>: the contribution in dB of one band at one
  frequency. With \<open>linearGain\<close> infinite, \<open>response\<close> and \<open>responseDb\<close> are infinite or
  NaN: the test \<open>response <= 1e-10\<close> is false and the test
  \<open>!isFinite(responseDb) || isNaN(responseDb)\<close> returns 0.\<close>

definition calculateBandResponse :: "real \<Rightarrow> EQBand \<Rightarrow> real" where
  "calculateBandResponse fr band =
    (if btype band \<noteq> Peak then 0
     else
       let f0 = frequency band; g = gain band; qv = qfactor band in
       if fr \<le> 0 \<or> f0 \<le> 0 \<or> qv \<le> 0 \<or> \<bar>g\<bar> < 0.01 then 0
       else
         let freqRatio = fr / f0;
             qTerm = qv * (freqRatio - 1 / freqRatio);
             denominator = 1 + qTerm * qTerm in
         if denominator \<le> 0 then 0
         else
           let linearGain = js_pow10 (g / 20);
               response = map_option (\<lambda>lg. 1 + (lg - 1) / denominator) linearGain in
           if (case response of None \<Rightarrow> False | Some r \<Rightarrow> r \<le> 1 / 10 ^ 10) then - 200
           else
             let responseDb = map_option (\<lambda>r. 20 * log 10 r) response in
             case responseDb of
               None \<Rightarrow> 0
             | Some d \<Rightarrow> max (- 50) (min 20 d))"

text \<open>\<open>applyEQToResponse(originalResponse, eqSettings)\<close>. The inner \<open>for\<close> loop over the
  bands, which adds each contribution to \<open>totalGain\<close>, is the \<open>fold\<close>. Its two tests for
  a NaN or infinite gain look at values \<open>calculateBandResponse\<close> returned and at their sum;
  these are 0, -200 or within \<open>[-50, 20]\<close>, so the tests never fire and have no branch
  here.\<close>

definition totalGain :: "EQBand list \<Rightarrow> real \<Rightarrow> real" where
  "totalGain bs fr = fold (\<lambda>band acc. acc + calculateBandResponse fr band) bs 0"

definition applyEQToResponse :: "ModeResponse list \<Rightarrow> EQSettings \<Rightarrow> ModeResponse list" where
  "applyEQToResponse originalResponse eqSettings =
    (if \<not> enabled eqSettings \<or> bands eqSettings = [] then originalResponse
     else map (\<lambda>point.
            let finalDb = db point + totalGain (bands eqSettings) (freq point) in
            \<lparr>freq = freq point, db = max (- 80) (min 130 finalDb)\<rparr>) originalResponse)"

section \<open>Modal response simulator\<close>

definition SPEED_OF_SOUND :: real where
  "SPEED_OF_SOUND = 343"

definition FREQUENCY_MIN_HZ :: int where
  "FREQUENCY_MIN_HZ = 20"

definition FREQUENCY_MAX_HZ :: int where
  "FREQUENCY_MAX_HZ = 300"

definition CACHE_SIZE_LIMIT :: nat where
  "CACHE_SIZE_LIMIT = 50"

text \<open>\<open>generateCacheKey\<close> serialises an object of rounded numbers with
  \<open>JSON.stringify\<close>. Two such objects have the same serialisation exactly when their
  numbers agree, so the model keeps the object itself as the key. Positions and dimensions
  are rounded to three decimals, \<open>baseQFactor\<close> to two, \<open>maxModeOrder\<close> is not rounded.\<close>

record CacheKey =
  key_sub :: Point
  key_listener :: Point
  key_room :: RoomDimensions
  key_maxModeOrder :: int
  key_baseQFactor :: real

definition round3 :: "real \<Rightarrow> real" where
  "round3 v = js_round (v * 1000) / 1000"

definition roundPoint :: "Point \<Rightarrow> Point" where
  "roundPoint p = \<lparr>pt_x = round3 (pt_x p), pt_y = round3 (pt_y p), pt_z = round3 (pt_z p)\<rparr>"

definition generateCacheKey ::
  "Point \<Rightarrow> Point \<Rightarrow> real \<Rightarrow> real \<Rightarrow> real \<Rightarrow> int \<Rightarrow> real \<Rightarrow> CacheKey" where
  "generateCacheKey subPos listenerPos L W H maxModeOrder baseQFactor =
     \<lparr>key_sub = roundPoint subPos,
      key_listener = roundPoint listenerPos,
      key_room = \<lparr>dim_L = round3 L, dim_W = round3 W, dim_H = round3 H\<rparr>,
      key_maxModeOrder = maxModeOrder,
      key_baseQFactor = js_round (baseQFactor * 100) / 100\<rparr>"

text \<open>\<open>calculateModePressure(n, m, l, pos, dim)\<close>, with the mirrored x axis.\<close>

definition calculateModePressure :: "int \<Rightarrow> int \<Rightarrow> int \<Rightarrow> Point \<Rightarrow> RoomDimensions \<Rightarrow> real" where
  "calculateModePressure n m l pos dims =
    (let Lx = (if dim_L dims = 0 then 1 / 10 ^ 6 else dim_L dims);
         Wy = (if dim_W dims = 0 then 1 / 10 ^ 6 else dim_W dims);
         Hz = (if dim_H dims = 0 then 1 / 10 ^ 6 else dim_H dims);
         effectiveX = Lx - pt_x pos
     in cos ((real_of_int n * pi * effectiveX) / Lx)
        * cos ((real_of_int m * pi * pt_y pos) / Wy)
        * cos ((real_of_int l * pi * pt_z pos) / Hz))"

text \<open>\<open>Math.atan2(y, x)\<close> on reals.\<close>

definition atan2 :: "real \<Rightarrow> real \<Rightarrow> real" where
  "atan2 y x =
    (if 0 < x then arctan (y / x)
     else if x < 0 \<and> 0 \<le> y then arctan (y / x) + pi
     else if x < 0 \<and> y < 0 then arctan (y / x) - pi
     else if 0 < y then pi / 2
     else if y < 0 then - (pi / 2)
     else 0)"

text \<open>The body of the innermost loop of \<open>simulateRoomResponse\<close> for one mode \<open>(n, m, l)\<close> at
  the frequency \<open>f\<close>: \<open>None\<close> where the source says \<open>continue\<close>, otherwise the amounts
  added to \<open>totalReal\<close> and \<open>totalImag\<close>.\<close>

definition modeTerm ::
  "Point \<Rightarrow> Point \<Rightarrow> real \<Rightarrow> real \<Rightarrow> real \<Rightarrow> real \<Rightarrow> int \<Rightarrow> int \<Rightarrow> int \<Rightarrow> int
    \<Rightarrow> (real \<times> real) option" where
  "modeTerm subPos listenerPos L W H baseQFactor f n m l =
    (if n = 0 \<and> m = 0 \<and> l = 0 \<and> \<not> (L = 0 \<and> W = 0 \<and> H = 0) then None
     else if L = 0 \<and> n \<noteq> 0 then None
     else if W = 0 \<and> m \<noteq> 0 then None
     else if H = 0 \<and> l \<noteq> 0 then None
     else
       let termL = (if L = 0 then 0 else real_of_int n / L);
           termW = (if W = 0 then 0 else real_of_int m / W);
           termH = (if H = 0 then 0 else real_of_int l / H);
           fMode = (SPEED_OF_SOUND / 2) * sqrt (termL ^ 2 + termW ^ 2 + termH ^ 2)
       in
       if fMode = 0 \<and> f > 0 then None
       else if fMode > real_of_int FREQUENCY_MAX_HZ * 1.5 \<and> fMode > 0
               \<and> n > 3 \<and> m > 3 \<and> l > 3 then None
       else
         let subPressureTerm =
               calculateModePressure n m l subPos \<lparr>dim_L = L, dim_W = W, dim_H = H\<rparr>;
             listenerPressureTerm =
               calculateModePressure n m l listenerPos \<lparr>dim_L = L, dim_W = W, dim_H = H\<rparr>;
             coupling = subPressureTerm * listenerPressureTerm
         in
         if \<bar>coupling\<bar> < 1 / 10 ^ 9 then None
         else
           let qMultiplier =
                 (if fMode > 0 \<and> fMode < 80 then 2
                  else if fMode \<ge> 80 \<and> fMode < 150 then 1.5 else 1);
               q = max 1 (baseQFactor * qMultiplier)
           in
           if fMode = 0 \<and> f = 0 then Some (coupling * 1 * cos 0, coupling * 1 * sin 0)
           else if fMode > 0 then
             let fRatio = real_of_int f / fMode;
                 denominatorTerm = fRatio / q;
                 modeAmplitudeResponse =
                   1 / sqrt ((1 - fRatio ^ 2) ^ 2 + denominatorTerm ^ 2);
                 modePhaseResponse = atan2 (- denominatorTerm) (1 - fRatio ^ 2);
                 effectiveMagnitude = coupling * modeAmplitudeResponse
             in Some (effectiveMagnitude * cos modePhaseResponse,
                      effectiveMagnitude * sin modePhaseResponse)
           else None)"

text \<open>The three nested loops over \<open>n\<close>, \<open>m\<close>, \<open>l\<close> from 0 to \<open>maxModeOrder\<close>, threading
  \<open>(totalReal, totalImag)\<close>.\<close>

definition addTerm :: "(real \<times> real) option \<Rightarrow> real \<times> real \<Rightarrow> real \<times> real" where
  "addTerm t acc = (case t of None \<Rightarrow> acc | Some (dr, di) \<Rightarrow> (fst acc + dr, snd acc + di))"

definition sumModes ::
  "Point \<Rightarrow> Point \<Rightarrow> real \<Rightarrow> real \<Rightarrow> real \<Rightarrow> int \<Rightarrow> real \<Rightarrow> int \<Rightarrow> real \<times> real" where
  "sumModes subPos listenerPos L W H maxModeOrder baseQFactor f =
     fold (\<lambda>n. fold (\<lambda>m. fold (\<lambda>l.
             addTerm (modeTerm subPos listenerPos L W H baseQFactor f n m l))
           [0..maxModeOrder]) [0..maxModeOrder]) [0..maxModeOrder] (0, 0)"

definition currentMagnitude ::
  "Point \<Rightarrow> Point \<Rightarrow> real \<Rightarrow> real \<Rightarrow> real \<Rightarrow> int \<Rightarrow> real \<Rightarrow> int \<Rightarrow> real" where
  "currentMagnitude subPos listenerPos L W H maxModeOrder baseQFactor f =
     (let tot = sumModes subPos listenerPos L W H maxModeOrder baseQFactor f
      in sqrt ((fst tot) ^ 2 + (snd tot) ^ 2))"

text \<open>The second loop: magnitude to dB, floored at \<open>MIN_DB_VALUE = -100\<close>.\<close>

definition MIN_DB_VALUE :: real where
  "MIN_DB_VALUE = - 100"

definition magnitudeToDb :: "real \<Rightarrow> real" where
  "magnitudeToDb magnitude =
     (let dbValue = (if magnitude \<le> 1 / 10 ^ 9 then MIN_DB_VALUE else 20 * log 10 magnitude)
      in max MIN_DB_VALUE dbValue)"

text \<open>The response computed on a cache miss: the frequency loop builds
  \<open>intermediateResponse\<close>, the second loop maps it to \<open>finalResponse\<close>. (The running maximum
  \<open>maxOverallMagnitude\<close> is computed by the source and never read; it is left out.)\<close>

definition intermediateResponse ::
  "Point \<Rightarrow> Point \<Rightarrow> real \<Rightarrow> real \<Rightarrow> real \<Rightarrow> int \<Rightarrow> real \<Rightarrow> (int \<times> real) list" where
  "intermediateResponse subPos listenerPos L W H maxModeOrder baseQFactor =
     map (\<lambda>f. (f, currentMagnitude subPos listenerPos L W H maxModeOrder baseQFactor f))
       [FREQUENCY_MIN_HZ..FREQUENCY_MAX_HZ]"

definition computeResponse ::
  "Point \<Rightarrow> Point \<Rightarrow> real \<Rightarrow> real \<Rightarrow> real \<Rightarrow> int \<Rightarrow> real \<Rightarrow> ModeResponse list" where
  "computeResponse subPos listenerPos L W H maxModeOrder baseQFactor =
     map (\<lambda>point. \<lparr>freq = real_of_int (fst point), db = magnitudeToDb (snd point)\<rparr>)
       (intermediateResponse subPos listenerPos L W H maxModeOrder baseQFactor)"

text \<open>The module-level cache maps a key to an array, and the function returns the array it
  stores: caller and cache share one object. The model therefore has a store of arrays,
  addressed by allocation order, and the cache holds addresses, in insertion order as a
  JavaScript \<open>Map\<close> iterates them.\<close>

type_synonym ref = nat

record SimState =
  heap :: "ModeResponse list list"
  responseCache :: "(CacheKey \<times> ref) list"

definition initialState :: SimState where
  "initialState = \<lparr>heap = [], responseCache = []\<rparr>"

definition deref :: "SimState \<Rightarrow> ref \<Rightarrow> ModeResponse list" where
  "deref s r = heap s ! r"

text \<open>The clean-up before a new entry is stored: at the size limit, the first half of the
  keys in insertion order is deleted.\<close>

definition evictIfFull :: "(CacheKey \<times> ref) list \<Rightarrow> (CacheKey \<times> ref) list" where
  "evictIfFull c =
     (if length c \<ge> CACHE_SIZE_LIMIT then drop (CACHE_SIZE_LIMIT div 2) c else c)"

definition simulateRoomResponse ::
  "SimState \<Rightarrow> Point \<Rightarrow> Point \<Rightarrow> real \<Rightarrow> real \<Rightarrow> real \<Rightarrow> int \<Rightarrow> real \<Rightarrow> ref \<times> SimState" where
  "simulateRoomResponse s subPos listenerPos L W H maxModeOrder baseQFactor =
    (let cacheKey = generateCacheKey subPos listenerPos L W H maxModeOrder baseQFactor in
     case map_of (responseCache s) cacheKey of
       Some r \<Rightarrow> (r, s)
     | None \<Rightarrow>
        let kept = evictIfFull (responseCache s);
            finalResponse = computeResponse subPos listenerPos L W H maxModeOrder baseQFactor;
            r = length (heap s)
        in (r, \<lparr>heap = heap s @ [finalResponse], responseCache = kept @ [(cacheKey, r)]\<rparr>))"

definition clearResponseCache :: "SimState \<Rightarrow> SimState" where
  "clearResponseCache s = s\<lparr>responseCache := []\<rparr>"

text \<open>A caller that writes into an array it was handed (\<open>resp.length = 0\<close>,
  \<open>resp[i] = ...\<close>) changes the store at that address.\<close>

definition mutateArray :: "SimState \<Rightarrow> ref \<Rightarrow> ModeResponse list \<Rightarrow> SimState" where
  "mutateArray s r v = s\<lparr>heap := (heap s)[r := v]\<rparr>"

text \<open>The states the module can be in when only its own functions touch the cache and no
  caller writes into a returned array.\<close>

inductive reachable :: "SimState \<Rightarrow> bool" where
  reachable_init: "reachable initialState"
| reachable_call:
    "reachable s \<Longrightarrow>
     reachable (snd (simulateRoomResponse s subPos listenerPos L W H maxModeOrder baseQFactor))"
| reachable_clear: "reachable s \<Longrightarrow> reachable (clearResponseCache s)"

section \<open>Target curve\<close>

text \<open>\<open>getHarmanTargetDB(freq, bassRolloffFreq?, bassRolloffSlope?)\<close>. An optional argument
  is an \<open>option\<close>; the test \<open>bassRolloffFreq && bassRolloffSlope\<close> is false for a
  missing argument and for 0. For a negative \<open>bassRolloffFreq\<close> the source takes the
  logarithm of a negative number; the theorems below speak of positive roll-off
  frequencies only.\<close>

definition getHarmanTargetDB :: "real \<Rightarrow> real option \<Rightarrow> real option \<Rightarrow> real" where
  "getHarmanTargetDB fr bassRolloffFreq bassRolloffSlope =
    (let baseDb =
       (if fr \<le> 20 then 7
        else if fr < 60 then 7 - ((fr - 20) / (60 - 20)) * 3
        else if fr < 200 then 4 - ((fr - 60) / (200 - 60)) * 4
        else if fr \<le> 300 then 0 - ((fr - 200) / (300 - 200)) * 1
        else - 1)
     in case (bassRolloffFreq, bassRolloffSlope) of
          (Some rf, Some sl) \<Rightarrow>
            if rf \<noteq> 0 \<and> sl \<noteq> 0 \<and> fr < rf then
              let octavesBelow = log 2 (rf / max fr 1);
                  rolloffDb = - octavesBelow * sl
              in baseDb + rolloffDb
            else baseDb
        | _ \<Rightarrow> baseDb)"

section \<open>Error analysis\<close>

record ErrorPoint =
  ep_freq :: real
  ep_error :: real
  ep_currentDb :: real
  ep_targetDb :: real

record ErrorAnalysis =
  rmsError :: real
  maxError :: real
  avgError :: real
  errorByFrequency :: "ErrorPoint list"

text \<open>The local variables of the loop of \<open>analyzeTargetError\<close>.\<close>

record ErrorAcc =
  acc_errors :: "ErrorPoint list"
  acc_sumSquaredError :: real
  acc_maxError :: real
  acc_sumError :: real
  acc_validPoints :: nat

definition errorAcc0 :: ErrorAcc where
  "errorAcc0 = \<lparr>acc_errors = [], acc_sumSquaredError = 0, acc_maxError = 0,
                 acc_sumError = 0, acc_validPoints = 0\<rparr>"

definition analyzeStep :: "ModeResponse list \<Rightarrow> ModeResponse \<Rightarrow> ErrorAcc \<Rightarrow> ErrorAcc" where
  "analyzeStep targetResponse currentPoint acc =
    (case find (\<lambda>t. \<bar>freq t - freq currentPoint\<bar> < 1) targetResponse of
       None \<Rightarrow> acc
     | Some targetPoint \<Rightarrow>
        let err = db currentPoint - db targetPoint;
            absError = \<bar>err\<bar>
        in \<lparr>acc_errors = acc_errors acc @
               [\<lparr>ep_freq = freq currentPoint, ep_error = err,
                 ep_currentDb = db currentPoint, ep_targetDb = db targetPoint\<rparr>],
            acc_sumSquaredError = acc_sumSquaredError acc + err * err,
            acc_maxError = max (acc_maxError acc) absError,
            acc_sumError = acc_sumError acc + err,
            acc_validPoints = acc_validPoints acc + 1\<rparr>)"

definition analyzeTargetError :: "ModeResponse list \<Rightarrow> ModeResponse list \<Rightarrow> ErrorAnalysis" where
  "analyzeTargetError currentResponse targetResponse =
    (let acc = fold (analyzeStep targetResponse) currentResponse errorAcc0 in
     \<lparr>rmsError = (if acc_validPoints acc > 0
                   then sqrt (acc_sumSquaredError acc / real (acc_validPoints acc)) else 0),
      maxError = acc_maxError acc,
      avgError = (if acc_validPoints acc > 0
                   then acc_sumError acc / real (acc_validPoints acc) else 0),
      errorByFrequency = acc_errors acc\<rparr>)"

section \<open>Multi-pass EQ generation\<close>

datatype PassType = Broad | Targeted | Polishing | UltraFine

text \<open>The options object of \<open>generateEQPass\<close>. \<open>usedFrequencies\<close> is a \<open>Set\<close> of numbers.\<close>

record PassOptions =
  p_maxBands :: int
  p_passType :: PassType
  p_maxBoost :: real
  p_maxCut :: real
  p_minQ :: real
  p_maxQ :: real
  p_smoothing :: real
  p_schroederFreq :: real
  p_usedFrequencies :: "real set"

definition getErrorThreshold :: "PassType \<Rightarrow> real \<Rightarrow> real \<Rightarrow> real" where
  "getErrorThreshold passType schroederFreq fr =
    (case passType of
       Broad \<Rightarrow>
         (if fr < 40 then 0.4 else if fr < 80 then 0.5 else if fr < 150 then 0.7
          else if fr < schroederFreq then 1.0 else 1.5)
     | Targeted \<Rightarrow>
         (if fr < 40 then 0.2 else if fr < 80 then 0.3 else if fr < 150 then 0.4
          else if fr < schroederFreq then 0.5 else 0.7)
     | Polishing \<Rightarrow>
         (if fr < 40 then 0.15 else if fr < 80 then 0.2 else if fr < 150 then 0.25
          else if fr < schroederFreq then 0.3 else 0.4)
     | UltraFine \<Rightarrow>
         (if fr < 40 then 0.1 else if fr < 80 then 0.15 else if fr < 150 then 0.2
          else if fr < schroederFreq then 0.25 else 0.3))"

text \<open>The weight the sort comparator gives an error point.\<close>

definition errorWeight :: "real \<Rightarrow> ErrorPoint \<Rightarrow> real" where
  "errorWeight schroederFreq e =
    (if ep_freq e < 60 then \<bar>ep_error e\<bar> * 3.0
     else if ep_freq e < 100 then \<bar>ep_error e\<bar> * 2.0
     else if ep_freq e < schroederFreq then \<bar>ep_error e\<bar> * 1.5
     else \<bar>ep_error e\<bar>)"

text \<open>\<open>Array.prototype.sort\<close> is stable; the comparator \<open>bWeight - aWeight\<close> orders by
  descending weight, which is ascending order of the negated weight.\<close>

definition significantErrors :: "PassType \<Rightarrow> real \<Rightarrow> ErrorPoint list \<Rightarrow> ErrorPoint list" where
  "significantErrors passType schroederFreq errs =
     sort_key (\<lambda>e. - errorWeight schroederFreq e)
       (filter (\<lambda>e. \<bar>ep_error e\<bar> > getErrorThreshold passType schroederFreq (ep_freq e))
         (filter (\<lambda>e. ep_freq e \<le> 300) errs))"

subsection \<open>smartFrequencyDistribution\<close>

definition getMinSpacing :: "PassType \<Rightarrow> real \<Rightarrow> real" where
  "getMinSpacing passType fr =
    (case passType of
       Broad \<Rightarrow> (if fr < 40 then 8 else if fr < 80 then 12 else if fr < 150 then 18 else 25)
     | Targeted \<Rightarrow> (if fr < 40 then 5 else if fr < 80 then 8 else if fr < 150 then 12 else 15)
     | Polishing \<Rightarrow> (if fr < 40 then 4 else if fr < 80 then 6 else if fr < 150 then 8 else 10)
     | UltraFine \<Rightarrow> (if fr < 40 then 3 else if fr < 80 then 4 else if fr < 150 then 5 else 6))"

record Zone =
  z_min :: real
  z_max :: real
  z_maxBands :: int
  z_name :: string

definition mkZone :: "real \<Rightarrow> real \<Rightarrow> int \<Rightarrow> string \<Rightarrow> Zone" where
  "mkZone lo hi mb nm = \<lparr>z_min = lo, z_max = hi, z_maxBands = mb, z_name = nm\<rparr>"

definition zonesFor :: "int \<Rightarrow> real \<Rightarrow> Zone list" where
  "zonesFor maxBands schroederFreq =
    (if maxBands \<le> 12 then
       [mkZone 20 50 \<lceil>real_of_int maxBands * 0.25\<rceil> ''Deep Bass'',
        mkZone 50 100 \<lceil>real_of_int maxBands * 0.30\<rceil> ''Bass Modes'',
        mkZone 100 180 \<lceil>real_of_int maxBands * 0.25\<rceil> ''Upper Bass'',
        mkZone 180 schroederFreq \<lceil>real_of_int maxBands * 0.12\<rceil> ''Modal Transition'',
        mkZone schroederFreq 300 \<lceil>real_of_int maxBands * 0.08\<rceil> ''Speaker Region'']
     else
       [mkZone 20 40 \<lceil>real_of_int maxBands * 0.35\<rceil> ''Deep Bass'',
        mkZone 40 80 \<lceil>real_of_int maxBands * 0.40\<rceil> ''Bass Modes'',
        mkZone 80 150 \<lceil>real_of_int maxBands * 0.15\<rceil> ''Upper Bass'',
        mkZone 150 schroederFreq \<lceil>real_of_int maxBands * 0.08\<rceil> ''Modal Transition'',
        mkZone schroederFreq 300 \<lceil>real_of_int maxBands * 0.02\<rceil> ''Speaker Region''])"

definition wellSpaced :: "PassType \<Rightarrow> real set \<Rightarrow> ErrorPoint list \<Rightarrow> ErrorPoint \<Rightarrow> bool" where
  "wellSpaced passType usedFrequencies distributed e =
    (let minSpacing = getMinSpacing passType (ep_freq e);
         tooCloseToExisting = (\<exists>u\<in>usedFrequencies. \<bar>u - ep_freq e\<bar> < minSpacing);
         tooCloseToDistributed = list_ex (\<lambda>d. \<bar>ep_freq d - ep_freq e\<bar> < minSpacing) distributed
     in \<not> tooCloseToExisting \<and> \<not> tooCloseToDistributed)"

text \<open>The priority loop over the critical low-frequency errors; the first test is the
  \<open>break\<close>.\<close>

fun priorityLoop ::
  "int \<Rightarrow> PassType \<Rightarrow> real set \<Rightarrow> ErrorPoint list \<Rightarrow> ErrorPoint list \<Rightarrow> ErrorPoint list" where
  "priorityLoop maxBands passType used [] distributed = distributed"
| "priorityLoop maxBands passType used (e # es) distributed =
    (if int (length distributed) \<ge> maxBands then distributed
     else if wellSpaced passType used distributed e
       then priorityLoop maxBands passType used es (distributed @ [e])
       else priorityLoop maxBands passType used es distributed)"

text \<open>The inner loop of the zone pass over the candidates of one zone.\<close>

fun zoneLoop ::
  "int \<Rightarrow> PassType \<Rightarrow> real set \<Rightarrow> int \<Rightarrow> ErrorPoint list \<Rightarrow> int \<Rightarrow> ErrorPoint list
    \<Rightarrow> ErrorPoint list" where
  "zoneLoop maxBands passType used zoneMax [] zoneBands distributed = distributed"
| "zoneLoop maxBands passType used zoneMax (e # es) zoneBands distributed =
    (if zoneBands \<ge> zoneMax \<or> int (length distributed) \<ge> maxBands then distributed
     else if wellSpaced passType used distributed e
       then zoneLoop maxBands passType used zoneMax es (zoneBands + 1) (distributed @ [e])
       else zoneLoop maxBands passType used zoneMax es zoneBands distributed)"

definition zonePass ::
  "int \<Rightarrow> PassType \<Rightarrow> real set \<Rightarrow> ErrorPoint list \<Rightarrow> Zone \<Rightarrow> ErrorPoint list \<Rightarrow> ErrorPoint list" where
  "zonePass maxBands passType used errs zone distributed =
    (let zoneErrors =
           filter (\<lambda>e. ep_freq e \<ge> z_min zone \<and> ep_freq e \<le> z_max zone
                        \<and> \<not> list_ex (\<lambda>d. \<bar>ep_freq d - ep_freq e\<bar> < 1) distributed) errs;
         zoneBands =
           int (length (filter (\<lambda>d. ep_freq d \<ge> z_min zone \<and> ep_freq d \<le> z_max zone)
                          distributed))
     in zoneLoop maxBands passType used (z_maxBands zone) zoneErrors zoneBands distributed)"

definition smartFrequencyDistribution ::
  "ErrorPoint list \<Rightarrow> int \<Rightarrow> real \<Rightarrow> real set \<Rightarrow> PassType \<Rightarrow> ErrorPoint list" where
  "smartFrequencyDistribution errs maxBands schroederFreq usedFrequencies passType =
    (if errs = [] then []
     else
       let zones = zonesFor maxBands schroederFreq;
           criticalLowFreqErrors =
             filter (\<lambda>e. ep_freq e < 80 \<and> \<bar>ep_error e\<bar> > 2.5) errs;
           distributed = priorityLoop maxBands passType usedFrequencies criticalLowFreqErrors []
       in fold (zonePass maxBands passType usedFrequencies errs) zones distributed)"

subsection \<open>calculatePassQ\<close>

definition baseQFor :: "PassType \<Rightarrow> real \<Rightarrow> real" where
  "baseQFor passType fr =
    (case passType of
       Broad \<Rightarrow>
         (if fr < 30 then 1.8 else if fr < 50 then 2.2 else if fr < 80 then 2.8
          else if fr < 120 then 3.2 else if fr < 200 then 3.8 else 4.5)
     | Targeted \<Rightarrow>
         (if fr < 30 then 2.8 else if fr < 50 then 3.5 else if fr < 80 then 4.2
          else if fr < 120 then 5.0 else if fr < 200 then 5.8 else 6.5)
     | Polishing \<Rightarrow>
         (if fr < 30 then 4.0 else if fr < 50 then 2.8 else if fr < 80 then 3.5
          else if fr < 120 then 4.5 else if fr < 200 then 5.5 else 7.0)
     | UltraFine \<Rightarrow>
         (if fr < 30 then 5.0 else if fr < 50 then 4.0 else if fr < 80 then 4.8
          else if fr < 120 then 6.0 else if fr < 200 then 7.5 else 9.0))"

definition calculatePassQ :: "real \<Rightarrow> real \<Rightarrow> PassType \<Rightarrow> real \<Rightarrow> real \<Rightarrow> int \<Rightarrow> real" where
  "calculatePassQ fr errorMagnitude passType minQ maxQ maxBands =
    (let isLowBandCount = (maxBands \<noteq> 0 \<and> maxBands \<le> 12);
         qReductionFactor = (if isLowBandCount then 0.6 else 1.0);
         baseQ0 = baseQFor passType fr * qReductionFactor;
         baseQ = (if errorMagnitude > 8 then baseQ0 * 0.8
                  else if errorMagnitude > 5 then baseQ0 * 0.95
                  else if errorMagnitude > 2 then baseQ0 * 1.05
                  else baseQ0 * 1.15);
         effectiveMinQ =
           (if fr < 40 then max (if isLowBandCount then 0.8 else 1.5) minQ
            else if fr < 80 then max (if isLowBandCount then 1.0 else 2.0) minQ
            else if fr < 200 then max (if isLowBandCount then 1.2 else 2.5) minQ
            else max (if isLowBandCount then 1.5 else 3.0) minQ);
         effectiveMaxQ =
           (if fr < 40 then min maxQ (if isLowBandCount then 4.0 else 6.0)
            else if fr < 80 then min maxQ (if isLowBandCount then 5.0 else 8.0)
            else if fr < 200 then min maxQ (if isLowBandCount then 6.0 else 10.0)
            else (if isLowBandCount then min maxQ 7.0 else maxQ))
     in max effectiveMinQ (min effectiveMaxQ baseQ))"

subsection \<open>addSpectralBalanceCorrection\<close>

definition highFreqStep :: "ModeResponse list \<Rightarrow> ModeResponse \<Rightarrow> real \<times> nat \<Rightarrow> real \<times> nat" where
  "highFreqStep highFreqTargets currentPoint acc =
    (case find (\<lambda>t. \<bar>freq t - freq currentPoint\<bar> < 2) highFreqTargets of
       None \<Rightarrow> acc
     | Some targetPoint \<Rightarrow> (fst acc + (db currentPoint - db targetPoint), snd acc + 1))"

definition addSpectralBalanceCorrection ::
  "EQBand list \<Rightarrow> ModeResponse list \<Rightarrow> ModeResponse list \<Rightarrow> int \<Rightarrow> real \<Rightarrow> real
    \<Rightarrow> EQBand option" where
  "addSpectralBalanceCorrection existingBands currentResponse targetResponse maxBands maxCut'
      schroederFreq =
    (if int (length existingBands) \<ge> maxBands then None
     else
       let lowFreqCuts =
             filter (\<lambda>band. frequency band \<ge> 20 \<and> frequency band \<le> 120 \<and> gain band < 0)
               existingBands
       in
       if lowFreqCuts = [] then None
       else
         let totalLowFreqCut = fold (\<lambda>band sum. sum + \<bar>gain band\<bar>) lowFreqCuts 0;
             avgLowFreqCut = totalLowFreqCut / real (length lowFreqCuts)
         in
         if avgLowFreqCut < 2.0 then None
         else
           let highFreqRegion = filter (\<lambda>p. freq p \<ge> 150 \<and> freq p \<le> 280) currentResponse;
               highFreqTargets = filter (\<lambda>p. freq p \<ge> 150 \<and> freq p \<le> 280) targetResponse
           in
           if highFreqRegion = [] \<or> highFreqTargets = [] then None
           else
             let tot = fold (highFreqStep highFreqTargets) highFreqRegion (0, 0) in
             if snd tot = 0 then None
             else
               let avgHighFreqError = fst tot / real (snd tot) in
               if avgHighFreqError < 1.5 then None
               else
                 let compensationGain = max (- maxCut' * 0.6) (- avgHighFreqError * 0.8) in
                 Some \<lparr>frequency = 200, gain = js_round (compensationGain * 10) / 10,
                        qfactor = 0.8, btype = Peak\<rparr>)"

subsection \<open>generateEQPass\<close>

definition frequencyScaling :: "real \<Rightarrow> real \<Rightarrow> real" where
  "frequencyScaling schroederFreq fr =
    (if fr < 40 then 1.2 else if fr < 80 then 1.1 else if fr < 150 then 1.0
     else if fr < schroederFreq then 0.9 else 0.7)"

definition passScaling :: "PassType \<Rightarrow> real" where
  "passScaling passType =
    (case passType of Broad \<Rightarrow> 0.95 | Targeted \<Rightarrow> 0.9 | Polishing \<Rightarrow> 0.85 | UltraFine \<Rightarrow> 0.8)"

text \<open>The gain the loop body computes for one error point, after the limits.\<close>

definition requiredGain :: "PassOptions \<Rightarrow> ErrorPoint \<Rightarrow> real" where
  "requiredGain opts errorPoint =
    (let g0 = - ep_error errorPoint * (1 - p_smoothing opts);
         g1 = g0 * (passScaling (p_passType opts)
                    * frequencyScaling (p_schroederFreq opts) (ep_freq errorPoint))
     in if g1 > 0 then min g1 (p_maxBoost opts) else max g1 (- p_maxCut opts))"

text \<open>The band the loop body pushes for one error point, if any.\<close>

definition bandFor :: "PassOptions \<Rightarrow> ErrorPoint \<Rightarrow> EQBand option" where
  "bandFor opts errorPoint =
    (let g = requiredGain opts errorPoint in
     if \<bar>g\<bar> > 0.2 then
       let qv = calculatePassQ (ep_freq errorPoint) \<bar>ep_error errorPoint\<bar> (p_passType opts)
                  (p_minQ opts) (p_maxQ opts) (p_maxBands opts)
       in Some \<lparr>frequency = js_round (ep_freq errorPoint * 10) / 10,
                gain = js_round (g * 10) / 10,
                qfactor = js_round (qv * 10) / 10,
                btype = Peak\<rparr>
     else None)"

fun bandLoop :: "PassOptions \<Rightarrow> ErrorPoint list \<Rightarrow> EQBand list \<Rightarrow> EQBand list" where
  "bandLoop opts [] bs = bs"
| "bandLoop opts (errorPoint # rest) bs =
    (if int (length bs) \<ge> p_maxBands opts then bs
     else bandLoop opts rest
            (case bandFor opts errorPoint of None \<Rightarrow> bs | Some b \<Rightarrow> bs @ [b]))"

definition generateEQPass :: "ModeResponse list \<Rightarrow> ModeResponse list \<Rightarrow> PassOptions \<Rightarrow> EQBand list" where
  "generateEQPass currentResponse targetResponse opts =
    (let errorAnalysis = analyzeTargetError currentResponse targetResponse;
         sig = significantErrors (p_passType opts) (p_schroederFreq opts)
                 (errorByFrequency errorAnalysis);
         distributedErrors =
           smartFrequencyDistribution sig (p_maxBands opts) (p_schroederFreq opts)
             (p_usedFrequencies opts) (p_passType opts);
         bs = bandLoop opts distributedErrors []
     in
     if p_passType opts = Broad \<and> p_maxBands opts \<le> 12 then
       (case addSpectralBalanceCorrection bs currentResponse targetResponse (p_maxBands opts)
               (p_maxCut opts) (p_schroederFreq opts) of
          None \<Rightarrow> bs
        | Some spectralBalanceBand \<Rightarrow> bs @ [spectralBalanceBand])
     else bs)"

subsection \<open>Post-EQ analysis and corrective bands\<close>

datatype ProblemType = ProblemPeak | ProblemOvershoot

datatype ProblemCause = BoostInteraction | Overcorrection

record PostEQProblem =
  prob_frequency :: real
  prob_type :: ProblemType
  prob_severity :: real
  prob_cause :: ProblemCause

text \<open>The scan around the midpoint of two boost bands: \<open>checkFreq\<close> runs from
  \<open>midFreq - 8\<close> to \<open>midFreq + 8\<close> in 33 steps of 0.5; the first overshoot above 2 dB is
  the problem of the pair.\<close>

fun scanMid ::
  "ModeResponse list \<Rightarrow> ModeResponse list \<Rightarrow> real list \<Rightarrow> PostEQProblem option" where
  "scanMid eqResponse targetResponse [] = None"
| "scanMid eqResponse targetResponse (checkFreq # rest) =
    (case (find (\<lambda>p. \<bar>freq p - checkFreq\<bar> < 0.5) eqResponse,
           find (\<lambda>p. \<bar>freq p - checkFreq\<bar> < 0.5) targetResponse) of
       (Some eqPoint, Some targetPoint) \<Rightarrow>
         (let overshoot = db eqPoint - db targetPoint in
          if overshoot > 2 then
            Some \<lparr>prob_frequency = checkFreq, prob_type = ProblemPeak,
                   prob_severity = overshoot, prob_cause = BoostInteraction\<rparr>
          else scanMid eqResponse targetResponse rest)
     | _ \<Rightarrow> scanMid eqResponse targetResponse rest)"

definition checkFreqs :: "real \<Rightarrow> real list" where
  "checkFreqs midFreq = map (\<lambda>k. midFreq - 8 + real_of_int k * 0.5) [0..32]"

fun interactionLoop ::
  "ModeResponse list \<Rightarrow> ModeResponse list \<Rightarrow> EQBand list \<Rightarrow> PostEQProblem list" where
  "interactionLoop eqResponse targetResponse (band1 # band2 # rest) =
    (let tl_problems = interactionLoop eqResponse targetResponse (band2 # rest) in
     if \<bar>frequency band2 - frequency band1\<bar> > 80 then tl_problems
     else
       let startFreq = min (frequency band1) (frequency band2);
           endFreq = max (frequency band1) (frequency band2);
           midFreq = (startFreq + endFreq) / 2
       in case scanMid eqResponse targetResponse (checkFreqs midFreq) of
            None \<Rightarrow> tl_problems
          | Some pr \<Rightarrow> pr # tl_problems)"
| "interactionLoop eqResponse targetResponse bs = []"

definition overshootOf ::
  "ModeResponse list \<Rightarrow> ModeResponse list \<Rightarrow> EQBand \<Rightarrow> PostEQProblem option" where
  "overshootOf eqResponse targetResponse band =
    (case (find (\<lambda>p. \<bar>freq p - frequency band\<bar> < 1) eqResponse,
           find (\<lambda>p. \<bar>freq p - frequency band\<bar> < 1) targetResponse) of
       (Some eqPoint, Some targetPoint) \<Rightarrow>
         (let overshoot = db eqPoint - db targetPoint in
          if overshoot > 3 then
            Some \<lparr>prob_frequency = frequency band, prob_type = ProblemOvershoot,
                   prob_severity = overshoot, prob_cause = Overcorrection\<rparr>
          else None)
     | _ \<Rightarrow> None)"

definition analyzePostEQProblems ::
  "ModeResponse list \<Rightarrow> ModeResponse list \<Rightarrow> EQBand list \<Rightarrow> real \<Rightarrow> PostEQProblem list" where
  "analyzePostEQProblems eqResponse targetResponse appliedBands schroederFreq =
    (let boostBands = filter (\<lambda>band. gain band > 0) appliedBands in
     if length boostBands < 2 then []
     else interactionLoop eqResponse targetResponse boostBands
          @ List.map_filter (overshootOf eqResponse targetResponse) boostBands)"

definition correctiveBand :: "PostEQProblem \<Rightarrow> EQBand" where
  "correctiveBand problem =
    (let correctionGain = - prob_severity problem * 0.95;
         correctionQ = (if prob_type problem = ProblemPeak then 3.5 else 2.5)
     in \<lparr>frequency = js_round (prob_frequency problem * 10) / 10,
         gain = js_round (correctionGain * 10) / 10,
         qfactor = correctionQ, btype = Peak\<rparr>)"

definition generateCorrectiveBands :: "PostEQProblem list \<Rightarrow> int \<Rightarrow> EQBand list" where
  "generateCorrectiveBands problems maxCorrectiveBands =
    (let sortedProblems = sort_key (\<lambda>p. - prob_severity p) problems
     in map correctiveBand
          (take (nat (min (int (length sortedProblems)) maxCorrectiveBands)) sortedProblems))"

subsection \<open>generateOptimalEQ\<close>

text \<open>The options object; a missing field takes the default of the destructuring. The
  fields \<open>subPos\<close>, \<open>listenerPos\<close>, \<open>roomDimensions\<close> and \<open>baseQFactor\<close> are read by
  nothing in the function and are left out.\<close>

record EQOptions =
  o_numBands :: "int option"
  o_maxBoost :: "real option"
  o_maxCut :: "real option"
  o_smoothing :: "real option"
  o_minQ :: "real option"
  o_maxQ :: "real option"
  o_schroederFreq :: "real option"

definition orDefault :: "'a \<Rightarrow> 'a option \<Rightarrow> 'a" where
  "orDefault d v = (case v of None \<Rightarrow> d | Some a \<Rightarrow> a)"

definition numBandsOf :: "EQOptions \<Rightarrow> int" where
  "numBandsOf options = orDefault 20 (o_numBands options)"

definition maxBoostOf :: "EQOptions \<Rightarrow> real" where
  "maxBoostOf options = orDefault 12.0 (o_maxBoost options)"

definition maxCutOf :: "EQOptions \<Rightarrow> real" where
  "maxCutOf options = orDefault 18.0 (o_maxCut options)"

definition smoothingOf :: "EQOptions \<Rightarrow> real" where
  "smoothingOf options = orDefault 0.02 (o_smoothing options)"

definition minQOf :: "EQOptions \<Rightarrow> real" where
  "minQOf options = orDefault 0.7 (o_minQ options)"

definition maxQOf :: "EQOptions \<Rightarrow> real" where
  "maxQOf options = orDefault 10.0 (o_maxQ options)"

definition schroederFreqOf :: "EQOptions \<Rightarrow> real" where
  "schroederFreqOf options = orDefault 200 (o_schroederFreq options)"

definition mkSettings :: "EQOptions \<Rightarrow> bool \<Rightarrow> EQBand list \<Rightarrow> EQSettings" where
  "mkSettings options en bs =
     \<lparr>bands = bs, enabled = en, maxBoost = maxBoostOf options, maxCut = maxCutOf options,
      smoothing = smoothingOf options\<rparr>"

text \<open>The options each pass hands to \<open>generateEQPass\<close>.\<close>

definition pass1Options :: "EQOptions \<Rightarrow> PassOptions" where
  "pass1Options options =
     \<lparr>p_maxBands = \<lceil>real_of_int (numBandsOf options) * 0.3\<rceil>, p_passType = Broad,
      p_maxBoost = maxBoostOf options * 0.95, p_maxCut = maxCutOf options * 0.95,
      p_minQ = minQOf options, p_maxQ = min (maxQOf options) 6.0,
      p_smoothing = smoothingOf options * 0.8, p_schroederFreq = schroederFreqOf options,
      p_usedFrequencies = {}\<rparr>"

definition pass2Options :: "EQOptions \<Rightarrow> EQBand list \<Rightarrow> PassOptions" where
  "pass2Options options pass1Bands =
     \<lparr>p_maxBands = min \<lceil>real_of_int (numBandsOf options) * 0.3\<rceil>
                      (numBandsOf options - int (length pass1Bands)),
      p_passType = Targeted,
      p_maxBoost = maxBoostOf options * 0.9, p_maxCut = maxCutOf options * 0.9,
      p_minQ = minQOf options * 1.05, p_maxQ = maxQOf options,
      p_smoothing = smoothingOf options * 0.7, p_schroederFreq = schroederFreqOf options,
      p_usedFrequencies = set (map frequency pass1Bands)\<rparr>"

definition pass3Options :: "EQOptions \<Rightarrow> EQBand list \<Rightarrow> EQBand list \<Rightarrow> PassOptions" where
  "pass3Options options pass1Bands pass2Bands =
     \<lparr>p_maxBands = min \<lceil>real_of_int (numBandsOf options) * 0.25\<rceil>
                      (numBandsOf options - int (length pass1Bands) - int (length pass2Bands)),
      p_passType = Polishing,
      p_maxBoost = maxBoostOf options * 0.8, p_maxCut = maxCutOf options * 0.8,
      p_minQ = minQOf options * 1.2, p_maxQ = maxQOf options,
      p_smoothing = smoothingOf options * 0.4, p_schroederFreq = schroederFreqOf options,
      p_usedFrequencies = set (map frequency (pass1Bands @ pass2Bands))\<rparr>"

definition pass4Options ::
  "EQOptions \<Rightarrow> EQBand list \<Rightarrow> EQBand list \<Rightarrow> EQBand list \<Rightarrow> PassOptions" where
  "pass4Options options pass1Bands pass2Bands pass3Bands =
     \<lparr>p_maxBands = numBandsOf options - int (length pass1Bands) - int (length pass2Bands)
                      - int (length pass3Bands),
      p_passType = UltraFine,
      p_maxBoost = maxBoostOf options * 0.7, p_maxCut = maxCutOf options * 0.7,
      p_minQ = minQOf options * 1.4, p_maxQ = maxQOf options,
      p_smoothing = smoothingOf options * 0.2, p_schroederFreq = schroederFreqOf options,
      p_usedFrequencies = set (map frequency (pass1Bands @ pass2Bands @ pass3Bands))\<rparr>"

text \<open>Pass 1: the bands of \<open>generateEQPass\<close>, and the corrective bands appended to them
  after the post-EQ analysis of the response those bands give.\<close>

definition pass1Initial :: "ModeResponse list \<Rightarrow> ModeResponse list \<Rightarrow> EQOptions \<Rightarrow> EQBand list" where
  "pass1Initial roomResponse targetResponse options =
     generateEQPass roomResponse targetResponse (pass1Options options)"

definition responseAfter :: "ModeResponse list \<Rightarrow> EQOptions \<Rightarrow> EQBand list \<Rightarrow> ModeResponse list" where
  "responseAfter roomResponse options bs =
     applyEQToResponse roomResponse (mkSettings options True bs)"

definition pass1Corrective :: "ModeResponse list \<Rightarrow> ModeResponse list \<Rightarrow> EQOptions \<Rightarrow> EQBand list" where
  "pass1Corrective roomResponse targetResponse options =
    (let pass1Bands = pass1Initial roomResponse targetResponse options;
         responseAfterPass1 = responseAfter roomResponse options pass1Bands;
         newProblems = analyzePostEQProblems responseAfterPass1 targetResponse pass1Bands
                         (schroederFreqOf options)
     in if length newProblems > 0
        then generateCorrectiveBands newProblems
               (p_maxBands (pass1Options options) - int (length pass1Bands))
        else [])"

text \<open>\<open>generateOptimalEQ\<close>. The promise, the 250 ms pauses and the console output have no
  effect on the value the promise resolves to and are not modelled; the error analyses
  that only feed the console output are left out. Beside the settings, the model returns
  the list of the passes for which \<open>generateEQPass\<close> was called, in order.\<close>

definition generateOptimalEQ_traced ::
  "ModeResponse list \<Rightarrow> ModeResponse list \<Rightarrow> EQOptions \<Rightarrow> PassType list \<times> EQSettings" where
  "generateOptimalEQ_traced roomResponseWithTilt targetResponse options =
    (if roomResponseWithTilt = [] \<or> targetResponse = [] then
       ([], mkSettings options False [])
     else
       let analysisResponse = roomResponseWithTilt;
           pass1Bands0 = pass1Initial analysisResponse targetResponse options;
           responseAfterPass1 = responseAfter analysisResponse options pass1Bands0;
           pass1Bands = pass1Bands0 @ pass1Corrective analysisResponse targetResponse options;
           pass2Bands = generateEQPass responseAfterPass1 targetResponse
                          (pass2Options options pass1Bands);
           responseAfterPass2 = responseAfter analysisResponse options (pass1Bands @ pass2Bands);
           pass3Opts = pass3Options options pass1Bands pass2Bands
       in
       if p_maxBands pass3Opts > 0 then
         let pass3Bands = generateEQPass responseAfterPass2 targetResponse pass3Opts;
             responseAfterPass3 =
               responseAfter analysisResponse options (pass1Bands @ pass2Bands @ pass3Bands);
             pass4Opts = pass4Options options pass1Bands pass2Bands pass3Bands
         in
         if p_maxBands pass4Opts > 0 then
           let pass4Bands = generateEQPass responseAfterPass3 targetResponse pass4Opts;
               allBands = pass1Bands @ pass2Bands @ pass3Bands @ pass4Bands
           in ([Broad, Targeted, Polishing, UltraFine],
               mkSettings options True (sort_key frequency allBands))
         else
           ([Broad, Targeted, Polishing],
            mkSettings options True (sort_key frequency (pass1Bands @ pass2Bands @ pass3Bands)))
       else
         ([Broad, Targeted],
          mkSettings options True (sort_key frequency (pass1Bands @ pass2Bands))))"

definition generateOptimalEQ :: "ModeResponse list \<Rightarrow> ModeResponse list \<Rightarrow> EQOptions \<Rightarrow> EQSettings" where
  "generateOptimalEQ roomResponseWithTilt targetResponse options =
     snd (generateOptimalEQ_traced roomResponseWithTilt targetResponse options)"

text \<open>The bands of the four passes, as the local variables \<open>pass1Bands\<close>, ...,
  \<open>pass4Bands\<close> of \<open>generateOptimalEQ\<close> hold them for non-empty inputs; a pass that is not
  run has no band.\<close>

definition pass1Bands :: "ModeResponse list \<Rightarrow> ModeResponse list \<Rightarrow> EQOptions \<Rightarrow> EQBand list" where
  "pass1Bands roomResponse targetResponse options =
     pass1Initial roomResponse targetResponse options
     @ pass1Corrective roomResponse targetResponse options"

definition pass2Bands :: "ModeResponse list \<Rightarrow> ModeResponse list \<Rightarrow> EQOptions \<Rightarrow> EQBand list" where
  "pass2Bands roomResponse targetResponse options =
     generateEQPass
       (responseAfter roomResponse options (pass1Initial roomResponse targetResponse options))
       targetResponse
       (pass2Options options (pass1Bands roomResponse targetResponse options))"

definition pass3Bands :: "ModeResponse list \<Rightarrow> ModeResponse list \<Rightarrow> EQOptions \<Rightarrow> EQBand list" where
  "pass3Bands roomResponse targetResponse options =
    (let p1 = pass1Bands roomResponse targetResponse options;
         p2 = pass2Bands roomResponse targetResponse options;
         pass3Opts = pass3Options options p1 p2
     in if p_maxBands pass3Opts > 0
        then generateEQPass (responseAfter roomResponse options (p1 @ p2)) targetResponse
               pass3Opts
        else [])"

definition pass4Bands :: "ModeResponse list \<Rightarrow> ModeResponse list \<Rightarrow> EQOptions \<Rightarrow> EQBand list" where
  "pass4Bands roomResponse targetResponse options =
    (let p1 = pass1Bands roomResponse targetResponse options;
         p2 = pass2Bands roomResponse targetResponse options;
         p3 = pass3Bands roomResponse targetResponse options;
         pass4Opts = pass4Options options p1 p2 p3
     in if p_maxBands (pass3Options options p1 p2) > 0 \<and> p_maxBands pass4Opts > 0
        then generateEQPass (responseAfter roomResponse options (p1 @ p2 @ p3)) targetResponse
               pass4Opts
        else [])"

section \<open>Definitions that follow the words of the specification\<close>

text \<open>The transfer function as the specification writes it:
  \<open>H(f) = 1 + (10^(gain/20) - 1) / (1 + (Q (f/f0 - f0/f))^2)\<close>, and the contribution the
  specification derives from it: \<open>20 log10 H\<close> clamped to \<open>[-50, 20]\<close>, and 0 dB for a band
  that is not a bell, has no usable centre frequency, Q or gain, or is asked at a
  frequency that is not positive, and for a band whose linear gain is not finite.\<close>

definition bell_H :: "real \<Rightarrow> EQBand \<Rightarrow> real" where
  "bell_H fr band =
     1 + (10 powr (gain band / 20) - 1)
         / (1 + (qfactor band * (fr / frequency band - frequency band / fr)) ^ 2)"

definition band_ignored :: "real \<Rightarrow> EQBand \<Rightarrow> bool" where
  "band_ignored fr band \<longleftrightarrow>
     btype band \<noteq> Peak \<or> fr \<le> 0 \<or> frequency band \<le> 0 \<or> qfactor band \<le> 0
     \<or> \<bar>gain band\<bar> < 0.01"

definition non_finite :: "EQBand \<Rightarrow> bool" where
  "non_finite band \<longleftrightarrow> POW_OVERFLOW \<le> 10 powr (gain band / 20)"

definition spec_contribution :: "real \<Rightarrow> EQBand \<Rightarrow> real" where
  "spec_contribution fr band =
     (if band_ignored fr band \<or> non_finite band then 0
      else max (- 50) (min 20 (20 * log 10 (bell_H fr band))))"

text \<open>The reference curve as the specification describes it: straight lines through
  (20, 7), (60, 4), (200, 0) and (300, -1), constant outside.\<close>

definition lerp :: "real \<Rightarrow> real \<Rightarrow> real \<Rightarrow> real \<Rightarrow> real \<Rightarrow> real" where
  "lerp x1 y1 x2 y2 v = y1 + (y2 - y1) * (v - x1) / (x2 - x1)"

definition harman_reference :: "real \<Rightarrow> real" where
  "harman_reference fr =
    (if fr \<le> 20 then 7
     else if fr \<le> 60 then lerp 20 7 60 4 fr
     else if fr \<le> 200 then lerp 60 4 200 0 fr
     else if fr \<le> 300 then lerp 200 0 300 (- 1) fr
     else - 1)"

text \<open>Matching as the specification words it: the target point nearest in frequency among
  those strictly within 1 Hz.\<close>

definition nearest_within :: "ModeResponse list \<Rightarrow> real \<Rightarrow> ModeResponse option" where
  "nearest_within targetResponse fr =
    (let cands = filter (\<lambda>t. \<bar>freq t - fr\<bar> < 1) targetResponse
     in if cands = [] then None else Some (arg_min_list (\<lambda>t. \<bar>freq t - fr\<bar>) cands))"

definition nearest_errors :: "ModeResponse list \<Rightarrow> ModeResponse list \<Rightarrow> real list" where
  "nearest_errors currentResponse targetResponse =
     List.map_filter
       (\<lambda>c. map_option (\<lambda>t. db c - db t) (nearest_within targetResponse (freq c)))
       currentResponse"

text \<open>Matching as the source does it: the first target point, in sequence order, strictly
  within 1 Hz.\<close>

definition matchedErrors :: "ModeResponse list \<Rightarrow> ModeResponse list \<Rightarrow> ErrorPoint list" where
  "matchedErrors targetResponse currentResponse =
     List.map_filter
       (\<lambda>c. map_option
               (\<lambda>t. \<lparr>ep_freq = freq c, ep_error = db c - db t,
                      ep_currentDb = db c, ep_targetDb = db t\<rparr>)
               (find (\<lambda>t. \<bar>freq t - freq c\<bar> < 1) targetResponse))
       currentResponse"

text \<open>What the specification promises of a simulated response: 281 points, at 20, 21, ...,
  300 Hz in this order, none below -100 dB.\<close>

definition wellFormedResponse :: "ModeResponse list \<Rightarrow> bool" where
  "wellFormedResponse r \<longleftrightarrow>
     length r = 281 \<and> map freq r = map real_of_int [20..300] \<and> list_all (\<lambda>p. - 100 \<le> db p) r"

text \<open>Every address the cache holds is allocated in the store.\<close>

definition cacheValid :: "SimState \<Rightarrow> bool" where
  "cacheValid s \<longleftrightarrow> list_all (\<lambda>kr. snd kr < length (heap s)) (responseCache s)"

text \<open>Every address the cache holds is allocated and holds a well-formed response.\<close>

definition cacheHoldsWellFormed :: "SimState \<Rightarrow> bool" where
  "cacheHoldsWellFormed s \<longleftrightarrow>
     list_all (\<lambda>kr. snd kr < length (heap s) \<and> wellFormedResponse (heap s ! snd kr))
       (responseCache s)"

section \<open>The filter bank\<close>

subsection \<open>Facts about one band\<close>

lemma calculateBandResponse_ignored:
  "band_ignored fr band \<Longrightarrow> calculateBandResponse fr band = 0"
  by (auto simp: calculateBandResponse_def band_ignored_def Let_def)

lemma bell_denominator_ge_1: "1 \<le> 1 + (c::real) * c"
  by simp

lemma bell_response_lower:
  fixes g d :: real
  assumes "0 < g" "1 \<le> d"
  shows "min 1 g \<le> 1 + (g - 1) / d"
proof (cases "1 \<le> g")
  case True
  then have "0 \<le> (g - 1) / d" using assms by simp
  then show ?thesis by simp
next
  case False
  then have "g - 1 < 0" by simp
  have "(g - 1) / d \<ge> g - 1"
  proof -
    have "(g - 1) * d \<le> (g - 1) * 1"
      using \<open>g - 1 < 0\<close> assms(2) by (intro mult_left_mono_neg) simp_all
    then have "(g - 1) * d \<le> g - 1" by simp
    then show ?thesis using assms(2) by (simp add: field_simps)
  qed
  then show ?thesis by simp
qed

lemma powr_minus_ten: "(10::real) powr (- 10) = 1 / 10 ^ 10"
proof -
  have "(10::real) powr (- 10) = inverse (10 powr 10)"
    by (rule powr_minus)
  also have "(10::real) powr 10 = 10 ^ 10"
    by (rule powr_numeral) simp
  finally show ?thesis by (simp only: inverse_eq_divide)
qed

lemma linearGain_above_floor:
  assumes "- 200 < (g::real)"
  shows "1 / 10 ^ 10 < (10::real) powr (g / 20)"
proof -
  have "- 10 < g / 20" using assms by simp
  then have "(10::real) powr (- 10) < 10 powr (g / 20)"
    by (simp add: powr_less_mono)
  then show ?thesis by (simp only: powr_minus_ten)
qed




lemma calculateBandResponse_overflow:
  assumes "non_finite band"
  shows "calculateBandResponse fr band = 0"
  using assms
  by (simp add: calculateBandResponse_def non_finite_def js_pow10_def Let_def)

lemma calculateBandResponse_formula:
  assumes "\<not> band_ignored fr band" and "- 200 < gain band" and "\<not> non_finite band"
  shows "calculateBandResponse fr band = max (- 50) (min 20 (20 * log 10 (bell_H fr band)))"
proof -
  let ?f0 = "frequency band"
  let ?c = "qfactor band * (fr / ?f0 - 1 / (fr / ?f0))"
  let ?g = "10 powr (gain band / 20) :: real"
  from assms(1) have pk: "btype band = Peak" and pos: "0 < fr" "0 < ?f0" "0 < qfactor band"
    and gn: "\<not> \<bar>gain band\<bar> < 0.01"
    by (auto simp: band_ignored_def)
  have inv: "1 / (fr / ?f0) = ?f0 / fr" by simp
  have d1: "1 \<le> 1 + ?c * ?c" by (rule bell_denominator_ge_1)
  have gpos: "0 < ?g" by simp
  have low: "min 1 ?g \<le> 1 + (?g - 1) / (1 + ?c * ?c)"
    by (rule bell_response_lower [OF gpos d1])
  have "1 / 10 ^ 10 < min 1 ?g"
    using linearGain_above_floor [OF assms(2)] by simp
  with low have resp: "\<not> 1 + (?g - 1) / (1 + ?c * ?c) \<le> 1 / 10 ^ 10" by linarith
  have dpos: "\<not> 1 + ?c * ?c \<le> 0" using d1 by linarith
  have fin: "js_pow10 (gain band / 20) = Some ?g"
    using assms(3) by (simp add: js_pow10_def non_finite_def)
  have H: "bell_H fr band = 1 + (?g - 1) / (1 + ?c * ?c)"
    by (simp only: bell_H_def inv power2_eq_square)
  have "calculateBandResponse fr band
          = max (- 50) (min 20 (20 * log 10 (1 + (?g - 1) / (1 + ?c * ?c))))"
    unfolding calculateBandResponse_def Let_def fin
    using pk pos gn resp dpos
    by (simp only: if_False if_True simp_thms not_le not_less option.map option.case) auto
  then show ?thesis by (simp only: H)
qed

lemma fold_add_sum_list:
  "fold (\<lambda>b acc. acc + h b) bs (a::real) = a + sum_list (map h bs)"
  by (induction bs arbitrary: a) simp_all

lemma totalGain_sum: "totalGain bs fr = (\<Sum>b\<leftarrow>bs. calculateBandResponse fr b)"
  by (simp add: totalGain_def fold_add_sum_list)

subsection \<open>Bands the filter bank ignores\<close>

lemma totalGain_drop_zero:
  assumes "calculateBandResponse fr band = 0"
  shows "totalGain (bs1 @ band # bs2) fr = totalGain (bs1 @ bs2) fr"
  using assms by (simp add: totalGain_sum)

text \<open>
  Claim C10. A band that is not of type peak, or whose centre frequency is not positive, or
  whose Q is not positive, or whose gain is smaller than 0.01 dB in magnitude, and any band
  asked at a frequency that is not positive, contributes exactly 0 dB; in the sum over the
  bands of a filter bank such a band can be left out.
\<close>

theorem ignored_band_contributes_zero:
  assumes "btype band \<noteq> Peak \<or> frequency band \<le> 0 \<or> qfactor band \<le> 0
           \<or> \<bar>gain band\<bar> < 0.01 \<or> fr \<le> 0"
  shows "calculateBandResponse fr band = 0
         \<and> totalGain (bs1 @ band # bs2) fr = totalGain (bs1 @ bs2) fr"
proof -
  from assms have "band_ignored fr band"
    by (auto simp: band_ignored_def)
  then have z: "calculateBandResponse fr band = 0"
    by (rule calculateBandResponse_ignored)
  with totalGain_drop_zero [OF z] show ?thesis by simp
qed

theorem ignored_band_contributes_zero_witness:
  "calculateBandResponse 100 \<lparr>frequency = 50, gain = 6, qfactor = 2, btype = Shelf\<rparr> = 0
   \<and> calculateBandResponse 100 \<lparr>frequency = 50, gain = 0.005, qfactor = 2, btype = Peak\<rparr> = 0
   \<and> calculateBandResponse 0 \<lparr>frequency = 50, gain = 6, qfactor = 2, btype = Peak\<rparr> = 0"
  using ignored_band_contributes_zero
          [of "\<lparr>frequency = 50, gain = 6, qfactor = 2, btype = Shelf\<rparr>" 100 "[]" "[]"]
        ignored_band_contributes_zero
          [of "\<lparr>frequency = 50, gain = 0.005, qfactor = 2, btype = Peak\<rparr>" 100 "[]" "[]"]
        ignored_band_contributes_zero
          [of "\<lparr>frequency = 50, gain = 6, qfactor = 2, btype = Peak\<rparr>" 0 "[]" "[]"]
  by simp

subsection \<open>Disabled or empty settings\<close>

text \<open>
  Claim C5. For settings that are disabled or have no band, \<open>applyEQToResponse\<close> returns
  the response it was given, point for point.
\<close>

theorem applyEQ_disabled_or_empty:
  assumes "\<not> enabled eqSettings \<or> bands eqSettings = []"
  shows "applyEQToResponse response eqSettings = response"
  using assms by (auto simp: applyEQToResponse_def)

theorem applyEQ_disabled_or_empty_witness:
  "applyEQToResponse [\<lparr>freq = 20, db = 71\<rparr>, \<lparr>freq = 21, db = 64\<rparr>]
     \<lparr>bands = [\<lparr>frequency = 20, gain = - 6, qfactor = 2, btype = Peak\<rparr>], enabled = False,
      maxBoost = 12, maxCut = 18, smoothing = 0\<rparr>
   = [\<lparr>freq = 20, db = 71\<rparr>, \<lparr>freq = 21, db = 64\<rparr>]
   \<and> applyEQToResponse [\<lparr>freq = 20, db = 71\<rparr>]
        \<lparr>bands = [], enabled = True, maxBoost = 12, maxCut = 18, smoothing = 0\<rparr>
      = [\<lparr>freq = 20, db = 71\<rparr>]"
  using applyEQ_disabled_or_empty
          [of "\<lparr>bands = [\<lparr>frequency = 20, gain = - 6, qfactor = 2, btype = Peak\<rparr>],
               enabled = False, maxBoost = 12, maxCut = 18, smoothing = 0\<rparr>"
              "[\<lparr>freq = 20, db = 71\<rparr>, \<lparr>freq = 21, db = 64\<rparr>]"]
        applyEQ_disabled_or_empty
          [of "\<lparr>bands = [], enabled = True, maxBoost = 12, maxCut = 18, smoothing = 0\<rparr>"
              "[\<lparr>freq = 20, db = 71\<rparr>]"]
  by simp

subsection \<open>The bell formula and the clamps\<close>

lemma calculateBandResponse_spec:
  assumes "- 200 < gain band"
  shows "calculateBandResponse fr band = spec_contribution fr band"
proof (cases "band_ignored fr band")
  case True
  then show ?thesis by (simp add: calculateBandResponse_ignored spec_contribution_def)
next
  case False
  show ?thesis
  proof (cases "non_finite band")
    case True
    then show ?thesis by (simp add: calculateBandResponse_overflow spec_contribution_def)
  next
    case nf: False
    from calculateBandResponse_formula [OF False assms nf] False nf
    show ?thesis by (simp only: spec_contribution_def simp_thms if_False)
  qed
qed

lemma spec_contribution_range:
  "- 50 \<le> spec_contribution fr band \<and> spec_contribution fr band \<le> 20"
  by (simp add: spec_contribution_def)

lemma calculateBandResponse_range:
  assumes "- 200 < gain band"
  shows "- 50 \<le> calculateBandResponse fr band \<and> calculateBandResponse fr band \<le> 20"
  using spec_contribution_range [of fr band]
  by (simp only: calculateBandResponse_spec [OF assms])










section \<open>The target curve\<close>

lemma harman_no_rolloff:
  "bassRolloffFreq = None \<or> bassRolloffSlope = None \<Longrightarrow>
   getHarmanTargetDB fr bassRolloffFreq bassRolloffSlope = harman_reference fr"
  by (auto simp: getHarmanTargetDB_def harman_reference_def lerp_def Let_def field_simps
           split: option.splits)

lemma harman_both_given:
  "getHarmanTargetDB fr (Some rf) (Some sl) =
     (if rf \<noteq> 0 \<and> sl \<noteq> 0 \<and> fr < rf
      then harman_reference fr - sl * log 2 (rf / max fr 1)
      else harman_reference fr)"
  by (auto simp: getHarmanTargetDB_def harman_reference_def lerp_def Let_def field_simps)

lemma harman_reference_knots:
  "harman_reference 20 = 7" "harman_reference 60 = 4"
  "harman_reference 200 = 0" "harman_reference 300 = - 1"
  by (simp_all add: harman_reference_def lerp_def)

text \<open>
  Claim C8, as the code has it. Without both roll-off parameters the value is the
  piecewise-linear reference curve (7 dB up to 20 Hz, straight lines to 4 dB at 60 Hz, 0 dB
  at 200 Hz and -1 dB at 300 Hz, -1 dB above). With a roll-off frequency above 0 and a
  slope other than 0, a frequency below \<open>rolloffFreq\<close> is reduced by
  \<open>slope * log2 (rolloffFreq / max freq 1)\<close>, which is \<open>slope * log2 (rolloffFreq / freq)\<close>
  from 1 Hz upwards; at and above \<open>rolloffFreq\<close>, and when a roll-off parameter is 0, the
  value is the reference curve.
\<close>

theorem harman_target_curve:
  "getHarmanTargetDB fr None None = harman_reference fr
   \<and> harman_reference 20 = 7 \<and> harman_reference 60 = 4
   \<and> harman_reference 200 = 0 \<and> harman_reference 300 = - 1
   \<and> (0 < rf \<and> sl \<noteq> 0 \<and> fr < rf \<longrightarrow>
        getHarmanTargetDB fr (Some rf) (Some sl)
          = harman_reference fr - sl * log 2 (rf / max fr 1))
   \<and> (0 < rf \<and> sl \<noteq> 0 \<and> fr < rf \<and> 1 \<le> fr \<longrightarrow>
        getHarmanTargetDB fr (Some rf) (Some sl) = harman_reference fr - sl * log 2 (rf / fr))
   \<and> (rf = 0 \<or> sl = 0 \<or> rf \<le> fr \<longrightarrow>
        getHarmanTargetDB fr (Some rf) (Some sl) = harman_reference fr)"
proof -
  have a: "getHarmanTargetDB fr None None = harman_reference fr"
    by (rule harman_no_rolloff) simp
  have b: "max fr 1 = fr" if "1 \<le> fr"
    using that by simp
  have c: "getHarmanTargetDB fr (Some rf) (Some sl) = harman_reference fr"
    if "rf = 0 \<or> sl = 0 \<or> rf \<le> fr"
    using that by (auto simp: harman_both_given)
  show ?thesis
    using a b c by (simp add: harman_both_given harman_reference_knots)
qed

theorem harman_target_curve_witness:
  "getHarmanTargetDB 40 (Some 80) (Some 12) = - 13 / 2
   \<and> getHarmanTargetDB 20 None None = 7
   \<and> getHarmanTargetDB 200 None None = 0
   \<and> getHarmanTargetDB 300 None None = - 1"
proof -
  have l: "log 2 (2::real) = 1" by simp
  have r: "harman_reference 40 = 11 / 2"
    by (simp add: harman_reference_def lerp_def)
  have "getHarmanTargetDB 40 (Some 80) (Some 12) = harman_reference 40 - 12 * log 2 (80 / 40)"
    using harman_target_curve [of 40 80 12] by simp
  then have w: "getHarmanTargetDB 40 (Some 80) (Some 12) = - 13 / 2"
    by (simp add: l r)
  show ?thesis
    using w harman_target_curve [of 20 80 12] harman_target_curve [of 200 80 12]
      harman_target_curve [of 300 80 12]
    by simp
qed

text \<open>
  Claim C8 as stated fails below 1 Hz: at 0.5 Hz with a roll-off of 1 dB per octave below
  2 Hz the code subtracts \<open>log2 (2 / 1) = 1\<close> dB, the claim \<open>log2 (2 / 0.5) = 2\<close> dB.
\<close>

theorem harman_rolloff_below_one_hertz:
  "getHarmanTargetDB (1 / 2) (Some 2) (Some 1) = 6
   \<and> harman_reference (1 / 2) - 1 * log 2 (2 / (1 / 2)) = 5"
proof -
  have l2: "log 2 (2::real) = 1" by simp
  have "log 2 (4::real) = log 2 (2 ^ 2)" by simp
  also have "\<dots> = 2" by (simp only: log_nat_power [of 2 2 2]) simp
  finally have l4: "log 2 (4::real) = 2" .
  have h: "harman_reference (1 / 2) = 7"
    by (simp add: harman_reference_def)
  have "getHarmanTargetDB (1 / 2) (Some 2) (Some 1) = harman_reference (1 / 2) - 1 * log 2 (2 / max (1 / 2) 1)"
    by (simp add: harman_both_given)
  then have c: "getHarmanTargetDB (1 / 2) (Some 2) (Some 1) = 6"
    by (simp add: h l2)
  from c h l4 show ?thesis by simp
qed

section \<open>Error analysis\<close>

lemma matchedErrors_Nil [simp]: "matchedErrors tgt [] = []"
  by (simp add: matchedErrors_def List.map_filter_simps)

lemma matchedErrors_Cons:
  "matchedErrors tgt (c # cs) =
    (case find (\<lambda>t. \<bar>freq t - freq c\<bar> < 1) tgt of
       None \<Rightarrow> matchedErrors tgt cs
     | Some t \<Rightarrow> \<lparr>ep_freq = freq c, ep_error = db c - db t,
                   ep_currentDb = db c, ep_targetDb = db t\<rparr> # matchedErrors tgt cs)"
  by (simp add: matchedErrors_def List.map_filter_simps split: option.splits)

lemma Max_insert_max:
  fixes a b :: real
  assumes "finite S"
  shows "Max (insert (max a b) S) = Max (insert a (insert b S))"
proof -
  have "Max (insert a (insert b S)) = max a (Max (insert b S))"
    using assms by simp
  also have "\<dots> = Max (insert (max a b) S)"
    using assms by (cases "S = {}") (simp_all add: max.assoc)
  finally show ?thesis by simp
qed

text \<open>The loop of \<open>analyzeTargetError\<close>, from any values of its local variables.\<close>

lemma analyze_fold:
  "fold (analyzeStep tgt) cur acc =
     \<lparr>acc_errors = acc_errors acc @ matchedErrors tgt cur,
      acc_sumSquaredError =
        acc_sumSquaredError acc + (\<Sum>e\<leftarrow>matchedErrors tgt cur. ep_error e * ep_error e),
      acc_maxError =
        Max (insert (acc_maxError acc) ((\<lambda>e. \<bar>ep_error e\<bar>) ` set (matchedErrors tgt cur))),
      acc_sumError = acc_sumError acc + (\<Sum>e\<leftarrow>matchedErrors tgt cur. ep_error e),
      acc_validPoints = acc_validPoints acc + length (matchedErrors tgt cur)\<rparr>"
proof (induction cur arbitrary: acc)
  case Nil
  show ?case by simp
next
  case (Cons c cs)
  have unroll: "fold (analyzeStep tgt) (c # cs) acc
                  = fold (analyzeStep tgt) cs (analyzeStep tgt c acc)"
    by simp
  show ?case
  proof (cases "find (\<lambda>t. \<bar>freq t - freq c\<bar> < 1) tgt")
    case None
    then have "analyzeStep tgt c acc = acc"
      by (simp add: analyzeStep_def)
    then show ?thesis
      using None by (simp only: unroll Cons.IH) (simp add: matchedErrors_Cons)
  next
    case (Some t)
    have fin: "finite ((\<lambda>e. \<bar>ep_error e\<bar>) ` set (matchedErrors tgt cs))" by simp
    have step: "analyzeStep tgt c acc =
        \<lparr>acc_errors = acc_errors acc @
               [\<lparr>ep_freq = freq c, ep_error = db c - db t,
                 ep_currentDb = db c, ep_targetDb = db t\<rparr>],
         acc_sumSquaredError = acc_sumSquaredError acc + (db c - db t) * (db c - db t),
         acc_maxError = max (acc_maxError acc) \<bar>db c - db t\<bar>,
         acc_sumError = acc_sumError acc + (db c - db t),
         acc_validPoints = acc_validPoints acc + 1\<rparr>"
      using Some by (simp add: analyzeStep_def Let_def)
    show ?thesis
      using Some
      by (simp only: unroll Cons.IH step)
         (simp add: matchedErrors_Cons Max_insert_max [OF fin] algebra_simps)
  qed
qed

text \<open>
  Claim C9, as the code has it. Each current point is matched to the first target point, in
  sequence order, whose frequency is strictly within 1 Hz of its own (\<open>matchedErrors\<close>);
  over the matched points \<open>error = current.db - target.db\<close>, \<open>rmsError\<close> is the square
  root of the mean squared error, \<open>maxError\<close> the largest \<open>|error|\<close> (0 with no match),
  \<open>avgError\<close> the mean error, and \<open>rmsError = avgError = 0\<close> when nothing matches.
\<close>

theorem analyzeTargetError_first_match:
  "errorByFrequency (analyzeTargetError cur tgt) = matchedErrors tgt cur
   \<and> rmsError (analyzeTargetError cur tgt) =
       (if matchedErrors tgt cur = [] then 0
        else sqrt ((\<Sum>e\<leftarrow>matchedErrors tgt cur. (ep_error e)\<^sup>2)
                   / real (length (matchedErrors tgt cur))))
   \<and> maxError (analyzeTargetError cur tgt) =
       Max (insert 0 ((\<lambda>e. \<bar>ep_error e\<bar>) ` set (matchedErrors tgt cur)))
   \<and> avgError (analyzeTargetError cur tgt) =
       (if matchedErrors tgt cur = [] then 0
        else (\<Sum>e\<leftarrow>matchedErrors tgt cur. ep_error e)
             / real (length (matchedErrors tgt cur)))"
proof -
  let ?m = "matchedErrors tgt cur"
  have loop: "fold (analyzeStep tgt) cur errorAcc0 =
     \<lparr>acc_errors = ?m,
      acc_sumSquaredError = (\<Sum>e\<leftarrow>?m. ep_error e * ep_error e),
      acc_maxError = Max (insert 0 ((\<lambda>e. \<bar>ep_error e\<bar>) ` set ?m)),
      acc_sumError = (\<Sum>e\<leftarrow>?m. ep_error e),
      acc_validPoints = length ?m\<rparr>"
    by (simp add: analyze_fold errorAcc0_def)
  show ?thesis
    unfolding analyzeTargetError_def Let_def loop
    by (simp add: power2_eq_square)
qed

theorem analyzeTargetError_first_match_witness:
  "errorByFrequency (analyzeTargetError [\<lparr>freq = 20, db = 3\<rparr>, \<lparr>freq = 50, db = 1\<rparr>]
      [\<lparr>freq = 20, db = 0\<rparr>])
     = [\<lparr>ep_freq = 20, ep_error = 3, ep_currentDb = 3, ep_targetDb = 0\<rparr>]
   \<and> rmsError (analyzeTargetError [\<lparr>freq = 20, db = 3\<rparr>, \<lparr>freq = 50, db = 1\<rparr>]
      [\<lparr>freq = 20, db = 0\<rparr>]) = 3
   \<and> maxError (analyzeTargetError [\<lparr>freq = 20, db = 3\<rparr>, \<lparr>freq = 50, db = 1\<rparr>]
      [\<lparr>freq = 20, db = 0\<rparr>]) = 3
   \<and> avgError (analyzeTargetError [\<lparr>freq = 20, db = 3\<rparr>, \<lparr>freq = 50, db = 1\<rparr>]
      [\<lparr>freq = 20, db = 0\<rparr>]) = 3"
proof -
  have m: "matchedErrors [\<lparr>freq = 20, db = 0\<rparr>] [\<lparr>freq = 20, db = 3\<rparr>, \<lparr>freq = 50, db = 1\<rparr>]
             = [\<lparr>ep_freq = 20, ep_error = 3, ep_currentDb = 3, ep_targetDb = 0\<rparr>]"
    by (simp add: matchedErrors_Cons)
  have s: "sqrt ((3::real)\<^sup>2) = 3" by simp
  show ?thesis
    using analyzeTargetError_first_match
            [of "[\<lparr>freq = 20, db = 3\<rparr>, \<lparr>freq = 50, db = 1\<rparr>]" "[\<lparr>freq = 20, db = 0\<rparr>]"]
    by (simp only: m) (simp add: s)
qed

text \<open>
  Claim C9 as stated fails where two target points lie within 1 Hz of a current point: the
  code takes the first of them, not the nearest. With the current point (20 Hz, 10 dB) and
  the targets (20.5 Hz, 0 dB), (20 Hz, 5 dB) the code reports the error 10, matching to
  the nearest gives 5.
\<close>

theorem first_match_is_not_nearest:
  "map ep_error (errorByFrequency
       (analyzeTargetError [\<lparr>freq = 20, db = 10\<rparr>]
          [\<lparr>freq = 41 / 2, db = 0\<rparr>, \<lparr>freq = 20, db = 5\<rparr>])) = [10]
   \<and> nearest_errors [\<lparr>freq = 20, db = 10\<rparr>]
          [\<lparr>freq = 41 / 2, db = 0\<rparr>, \<lparr>freq = 20, db = 5\<rparr>] = [5]"
  by (simp add: analyzeTargetError_def analyzeStep_def errorAcc0_def Let_def
        nearest_errors_def nearest_within_def List.map_filter_simps)


section \<open>The simulator\<close>

subsection \<open>Shape of a computed response\<close>

lemma magnitudeToDb_floor: "- 100 \<le> magnitudeToDb v"
  by (simp add: magnitudeToDb_def MIN_DB_VALUE_def Let_def)

lemma grid_length: "length [FREQUENCY_MIN_HZ..FREQUENCY_MAX_HZ] = 281"
  by (simp add: FREQUENCY_MIN_HZ_def FREQUENCY_MAX_HZ_def)

lemma computeResponse_wellFormed:
  "wellFormedResponse (computeResponse subPos listenerPos L W H maxModeOrder baseQFactor)"
proof -
  let ?r = "computeResponse subPos listenerPos L W H maxModeOrder baseQFactor"
  have len: "length ?r = 281"
    by (simp add: computeResponse_def intermediateResponse_def FREQUENCY_MIN_HZ_def
          FREQUENCY_MAX_HZ_def)
  have fr: "map freq ?r = map real_of_int [20..300]"
    by (simp add: computeResponse_def intermediateResponse_def comp_def
          FREQUENCY_MIN_HZ_def FREQUENCY_MAX_HZ_def)
  have fl: "list_all (\<lambda>p. - 100 \<le> db p) ?r"
    by (simp add: computeResponse_def list_all_iff magnitudeToDb_floor)
  from len fr fl show ?thesis
    by (simp only: wellFormedResponse_def simp_thms)
qed

subsection \<open>The cache keeps well-formed responses\<close>

lemma map_of_in_set: "map_of xs k = Some v \<Longrightarrow> (k, v) \<in> set xs"
  by (rule map_of_SomeD)

lemma kept_subset: "set (evictIfFull c) \<subseteq> set c"
  by (auto simp: evictIfFull_def dest: in_set_dropD)

lemma simulate_hit:
  assumes "map_of (responseCache s)
             (generateCacheKey subPos listenerPos L W H maxModeOrder baseQFactor) = Some r"
  shows "simulateRoomResponse s subPos listenerPos L W H maxModeOrder baseQFactor = (r, s)"
  using assms by (simp add: simulateRoomResponse_def Let_def)

lemma simulate_miss:
  assumes "map_of (responseCache s)
             (generateCacheKey subPos listenerPos L W H maxModeOrder baseQFactor) = None"
  shows "simulateRoomResponse s subPos listenerPos L W H maxModeOrder baseQFactor =
           (length (heap s),
            \<lparr>heap = heap s @ [computeResponse subPos listenerPos L W H maxModeOrder baseQFactor],
             responseCache =
               evictIfFull (responseCache s)
               @ [(generateCacheKey subPos listenerPos L W H maxModeOrder baseQFactor,
                   length (heap s))]\<rparr>)"
  using assms by (simp add: simulateRoomResponse_def Let_def)

lemma simulate_preserves_wellFormed:
  assumes "cacheHoldsWellFormed s"
  shows "cacheHoldsWellFormed
           (snd (simulateRoomResponse s subPos listenerPos L W H maxModeOrder baseQFactor))"
proof (cases "map_of (responseCache s)
                (generateCacheKey subPos listenerPos L W H maxModeOrder baseQFactor)")
  case (Some r)
  then show ?thesis using assms by (simp add: simulate_hit)
next
  case None
  let ?kept = "evictIfFull (responseCache s)"
  let ?R = "computeResponse subPos listenerPos L W H maxModeOrder baseQFactor"
  let ?key = "generateCacheKey subPos listenerPos L W H maxModeOrder baseQFactor"
  have sub: "set ?kept \<subseteq> set (responseCache s)"
    by (rule kept_subset)
  have old: "snd kr < length (heap s @ [?R]) \<and> wellFormedResponse ((heap s @ [?R]) ! snd kr)"
    if "kr \<in> set ?kept" for kr
  proof -
    from that sub have "kr \<in> set (responseCache s)" by blast
    with assms have "snd kr < length (heap s)" "wellFormedResponse (heap s ! snd kr)"
      by (auto simp: cacheHoldsWellFormed_def list_all_iff)
    then show ?thesis by (simp add: nth_append)
  qed
  have new: "length (heap s) < length (heap s @ [?R])
             \<and> wellFormedResponse ((heap s @ [?R]) ! length (heap s))"
    by (simp add: computeResponse_wellFormed)
  have "list_all (\<lambda>kr. snd kr < length (heap s @ [?R])
                         \<and> wellFormedResponse ((heap s @ [?R]) ! snd kr))
          (?kept @ [(?key, length (heap s))])"
    unfolding list_all_iff using old new by auto
  then show ?thesis
    unfolding simulate_miss [OF None] cacheHoldsWellFormed_def by simp
qed

lemma reachable_wellFormed: "reachable s \<Longrightarrow> cacheHoldsWellFormed s"
proof (induction rule: reachable.induct)
  case reachable_init
  show ?case by (simp add: cacheHoldsWellFormed_def initialState_def)
next
  case (reachable_call s subPos listenerPos L W H maxModeOrder baseQFactor)
  then show ?case by (simp add: simulate_preserves_wellFormed)
next
  case (reachable_clear s)
  show ?case by (simp add: cacheHoldsWellFormed_def clearResponseCache_def)
qed

lemma simulate_result_wellFormed:
  assumes "cacheHoldsWellFormed s"
  shows "wellFormedResponse
           (deref (snd (simulateRoomResponse s subPos listenerPos L W H maxModeOrder baseQFactor))
                  (fst (simulateRoomResponse s subPos listenerPos L W H maxModeOrder baseQFactor)))"
proof (cases "map_of (responseCache s)
                (generateCacheKey subPos listenerPos L W H maxModeOrder baseQFactor)")
  case (Some r)
  then have "(generateCacheKey subPos listenerPos L W H maxModeOrder baseQFactor, r)
               \<in> set (responseCache s)"
    by (rule map_of_in_set)
  then have "wellFormedResponse (heap s ! r)"
    using assms by (auto simp: cacheHoldsWellFormed_def list_all_iff)
  then show ?thesis using Some by (simp add: simulate_hit deref_def)
next
  case None
  show ?thesis
    unfolding simulate_miss [OF None]
    by (simp add: deref_def computeResponse_wellFormed)
qed

text \<open>
  Claim C1. In every state the module reaches by its own calls, \<open>simulateRoomResponse\<close>
  returns, for any positions, dimensions, \<open>maxModeOrder\<close> and \<open>baseQFactor\<close>, a sequence
  of exactly 281 points whose frequencies are 20, 21, ..., 300 in this order and whose
  levels are all at least -100 dB, whether the answer is computed or comes from the cache.
\<close>

theorem simulate_281_points:
  assumes "reachable s"
  shows "length (deref (snd (simulateRoomResponse s subPos listenerPos L W H maxModeOrder baseQFactor))
                  (fst (simulateRoomResponse s subPos listenerPos L W H maxModeOrder baseQFactor)))
           = 281
         \<and> map freq
             (deref (snd (simulateRoomResponse s subPos listenerPos L W H maxModeOrder baseQFactor))
                  (fst (simulateRoomResponse s subPos listenerPos L W H maxModeOrder baseQFactor)))
           = map real_of_int [20..300]
         \<and> (\<forall>p \<in> set
             (deref (snd (simulateRoomResponse s subPos listenerPos L W H maxModeOrder baseQFactor))
                  (fst (simulateRoomResponse s subPos listenerPos L W H maxModeOrder baseQFactor))).
              - 100 \<le> db p)"
  using simulate_result_wellFormed [OF reachable_wellFormed [OF assms]]
  by (simp add: wellFormedResponse_def list_all_iff)


theorem simulate_281_points_witness:
  "length (deref (snd (simulateRoomResponse initialState
                         \<lparr>pt_x = 1, pt_y = 1, pt_z = 1 / 2\<rparr> \<lparr>pt_x = 3, pt_y = 2, pt_z = 6 / 5\<rparr>
                         5 4 3 10 10))
                 (fst (simulateRoomResponse initialState
                         \<lparr>pt_x = 1, pt_y = 1, pt_z = 1 / 2\<rparr> \<lparr>pt_x = 3, pt_y = 2, pt_z = 6 / 5\<rparr>
                         5 4 3 10 10))) = 281
   \<and> map freq (deref (snd (simulateRoomResponse initialState
                         \<lparr>pt_x = 1, pt_y = 1, pt_z = 1 / 2\<rparr> \<lparr>pt_x = 3, pt_y = 2, pt_z = 6 / 5\<rparr>
                         5 4 3 10 10))
                 (fst (simulateRoomResponse initialState
                         \<lparr>pt_x = 1, pt_y = 1, pt_z = 1 / 2\<rparr> \<lparr>pt_x = 3, pt_y = 2, pt_z = 6 / 5\<rparr>
                         5 4 3 10 10))) = map real_of_int [20..300]"
  using simulate_281_points [OF reachable_init,
          of "\<lparr>pt_x = 1, pt_y = 1, pt_z = 1 / 2\<rparr>" "\<lparr>pt_x = 3, pt_y = 2, pt_z = 6 / 5\<rparr>" 5 4 3 10 10]
  by blast

subsection \<open>Symmetry in source and listener\<close>

lemma modeTerm_symmetric:
  "modeTerm a b L W H q f n m l = modeTerm b a L W H q f n m l"
proof -
  have c: "calculateModePressure n m l a d * calculateModePressure n m l b d
             = calculateModePressure n m l b d * calculateModePressure n m l a d" for d
    by (rule mult.commute)
  show ?thesis
    unfolding modeTerm_def Let_def by (simp only: c)
qed

lemma computeResponse_symmetric:
  "computeResponse a b L W H maxModeOrder q = computeResponse b a L W H maxModeOrder q"
proof -
  have "sumModes a b L W H maxModeOrder q f = sumModes b a L W H maxModeOrder q f" for f
    by (simp only: sumModes_def modeTerm_symmetric [of a b])
  then show ?thesis
    by (simp only: computeResponse_def intermediateResponse_def currentMagnitude_def)
qed

lemma map_of_kept_None:
  assumes "map_of c k = None"
  shows "map_of (evictIfFull c) k = None"
proof -
  from assms have "k \<notin> fst ` set c" by (simp add: map_of_eq_None_iff)
  with kept_subset [of c] have "k \<notin> fst ` set (evictIfFull c)" by blast
  then show ?thesis by (simp add: map_of_eq_None_iff)
qed

lemma simulate_miss_deref:
  assumes "map_of (responseCache s) (generateCacheKey a b L W H maxModeOrder q) = None"
  shows "deref (snd (simulateRoomResponse s a b L W H maxModeOrder q))
               (fst (simulateRoomResponse s a b L W H maxModeOrder q))
           = computeResponse a b L W H maxModeOrder q"
  unfolding simulate_miss [OF assms] by (simp add: deref_def)

text \<open>
  Claim C4, as the code has it. The response the simulator computes is the same with source
  and listener swapped. Through the cache: from any state in which neither
  \<open>(a, b, ...)\<close> nor \<open>(b, a, ...)\<close> has a cached entry, the call for \<open>(a, b, ...)\<close> followed
  by the call for \<open>(b, a, ...)\<close> returns two sequences that are equal point for point.
\<close>

theorem simulate_swap_when_computed:
  assumes "map_of (responseCache s) (generateCacheKey a b L W H maxModeOrder q) = None"
    and "map_of (responseCache s) (generateCacheKey b a L W H maxModeOrder q) = None"
  shows "computeResponse a b L W H maxModeOrder q = computeResponse b a L W H maxModeOrder q
         \<and> deref (snd (simulateRoomResponse
                         (snd (simulateRoomResponse s a b L W H maxModeOrder q))
                         b a L W H maxModeOrder q))
                 (fst (simulateRoomResponse
                         (snd (simulateRoomResponse s a b L W H maxModeOrder q))
                         b a L W H maxModeOrder q))
           = deref (snd (simulateRoomResponse s a b L W H maxModeOrder q))
                   (fst (simulateRoomResponse s a b L W H maxModeOrder q))"
proof
  show "computeResponse a b L W H maxModeOrder q = computeResponse b a L W H maxModeOrder q"
    by (rule computeResponse_symmetric)
next
  let ?kab = "generateCacheKey a b L W H maxModeOrder q"
  let ?kba = "generateCacheKey b a L W H maxModeOrder q"
  let ?kept = "evictIfFull (responseCache s)"
  let ?R = "computeResponse a b L W H maxModeOrder q"
  let ?s1 = "\<lparr>heap = heap s @ [?R], responseCache = ?kept @ [(?kab, length (heap s))]\<rparr>"
  have first: "simulateRoomResponse s a b L W H maxModeOrder q = (length (heap s), ?s1)"
    by (rule simulate_miss [OF assms(1)])
  have keptNone: "map_of ?kept ?kba = None"
    by (rule map_of_kept_None [OF assms(2)])
  show "deref (snd (simulateRoomResponse
                         (snd (simulateRoomResponse s a b L W H maxModeOrder q))
                         b a L W H maxModeOrder q))
                 (fst (simulateRoomResponse
                         (snd (simulateRoomResponse s a b L W H maxModeOrder q))
                         b a L W H maxModeOrder q))
           = deref (snd (simulateRoomResponse s a b L W H maxModeOrder q))
                   (fst (simulateRoomResponse s a b L W H maxModeOrder q))"
  proof (cases "?kba = ?kab")
    case True
    have "map_of (responseCache ?s1) ?kba = Some (length (heap s))"
      using keptNone True by (simp add: map_add_def)
    then have "simulateRoomResponse ?s1 b a L W H maxModeOrder q = (length (heap s), ?s1)"
      by (rule simulate_hit)
    then show ?thesis by (simp add: first)
  next
    case False
    have "map_of (responseCache ?s1) ?kba = None"
      using keptNone False by (simp add: map_add_def)
    then have "deref (snd (simulateRoomResponse ?s1 b a L W H maxModeOrder q))
                (fst (simulateRoomResponse ?s1 b a L W H maxModeOrder q))
            = computeResponse b a L W H maxModeOrder q"
      by (rule simulate_miss_deref)
    moreover have "deref ?s1 (length (heap s)) = ?R"
      by (simp add: deref_def)
    ultimately show ?thesis
      by (simp only: first fst_conv snd_conv computeResponse_symmetric [of a b])
  qed
qed

theorem simulate_swap_when_computed_witness:
  "deref (snd (simulateRoomResponse
                 (snd (simulateRoomResponse initialState
                         \<lparr>pt_x = 1, pt_y = 1, pt_z = 1 / 2\<rparr> \<lparr>pt_x = 3, pt_y = 2, pt_z = 6 / 5\<rparr>
                         5 4 3 10 10))
                 \<lparr>pt_x = 3, pt_y = 2, pt_z = 6 / 5\<rparr> \<lparr>pt_x = 1, pt_y = 1, pt_z = 1 / 2\<rparr>
                 5 4 3 10 10))
         (fst (simulateRoomResponse
                 (snd (simulateRoomResponse initialState
                         \<lparr>pt_x = 1, pt_y = 1, pt_z = 1 / 2\<rparr> \<lparr>pt_x = 3, pt_y = 2, pt_z = 6 / 5\<rparr>
                         5 4 3 10 10))
                 \<lparr>pt_x = 3, pt_y = 2, pt_z = 6 / 5\<rparr> \<lparr>pt_x = 1, pt_y = 1, pt_z = 1 / 2\<rparr>
                 5 4 3 10 10))
   = deref (snd (simulateRoomResponse initialState
                   \<lparr>pt_x = 1, pt_y = 1, pt_z = 1 / 2\<rparr> \<lparr>pt_x = 3, pt_y = 2, pt_z = 6 / 5\<rparr>
                   5 4 3 10 10))
           (fst (simulateRoomResponse initialState
                   \<lparr>pt_x = 1, pt_y = 1, pt_z = 1 / 2\<rparr> \<lparr>pt_x = 3, pt_y = 2, pt_z = 6 / 5\<rparr>
                   5 4 3 10 10))"
proof -
  have e: "map_of (responseCache initialState) k = None" for k
    by (simp add: initialState_def)
  show ?thesis
    using simulate_swap_when_computed [OF e e,
            of "\<lparr>pt_x = 1, pt_y = 1, pt_z = 1 / 2\<rparr>" "\<lparr>pt_x = 3, pt_y = 2, pt_z = 6 / 5\<rparr>"
               5 4 3 10 10]
    by blast
qed

subsection \<open>The cache hands out the array it keeps\<close>

lemma simulate_caches_result:
  "map_of (responseCache (snd (simulateRoomResponse s a b L W H maxModeOrder q)))
          (generateCacheKey a b L W H maxModeOrder q)
     = Some (fst (simulateRoomResponse s a b L W H maxModeOrder q))"
proof (cases "map_of (responseCache s) (generateCacheKey a b L W H maxModeOrder q)")
  case (Some r)
  then show ?thesis by (simp add: simulate_hit)
next
  case None
  have "map_of (evictIfFull (responseCache s))
               (generateCacheKey a b L W H maxModeOrder q) = None"
    by (rule map_of_kept_None [OF None])
  then show ?thesis
    unfolding simulate_miss [OF None] by (simp add: map_add_def)
qed

lemma simulate_result_allocated:
  assumes "cacheValid s"
  shows "fst (simulateRoomResponse s a b L W H maxModeOrder q)
           < length (heap (snd (simulateRoomResponse s a b L W H maxModeOrder q)))"
proof (cases "map_of (responseCache s) (generateCacheKey a b L W H maxModeOrder q)")
  case (Some r)
  then have "(generateCacheKey a b L W H maxModeOrder q, r) \<in> set (responseCache s)"
    by (rule map_of_in_set)
  then have "r < length (heap s)"
    using assms by (auto simp: cacheValid_def list_all_iff)
  then show ?thesis using Some by (simp add: simulate_hit)
next
  case None
  show ?thesis unfolding simulate_miss [OF None] by simp
qed

lemma reachable_cacheValid: "reachable s \<Longrightarrow> cacheValid s"
  using reachable_wellFormed [of s]
  by (auto simp: cacheValid_def cacheHoldsWellFormed_def list_all_iff)

text \<open>
  Claim C7, as the code has it. From a state whose cached addresses are allocated, a call
  followed directly by a call whose arguments give the same cache key returns the very same
  array and leaves the state as it is, so the two sequences are equal. The array is shared,
  not copied: when the caller overwrites the array it was handed with \<open>v\<close>, the second
  call returns the same address, and what it holds is \<open>v\<close>.
\<close>

theorem cache_hit_returns_shared_array:
  assumes "cacheValid s"
    and "generateCacheKey a' b' L' W' H' maxModeOrder' q'
           = generateCacheKey a b L W H maxModeOrder q"
  shows "simulateRoomResponse (snd (simulateRoomResponse s a b L W H maxModeOrder q))
             a' b' L' W' H' maxModeOrder' q'
           = (fst (simulateRoomResponse s a b L W H maxModeOrder q),
              snd (simulateRoomResponse s a b L W H maxModeOrder q))
         \<and> simulateRoomResponse
             (mutateArray (snd (simulateRoomResponse s a b L W H maxModeOrder q))
                (fst (simulateRoomResponse s a b L W H maxModeOrder q)) v)
             a' b' L' W' H' maxModeOrder' q'
           = (fst (simulateRoomResponse s a b L W H maxModeOrder q),
              mutateArray (snd (simulateRoomResponse s a b L W H maxModeOrder q))
                (fst (simulateRoomResponse s a b L W H maxModeOrder q)) v)
         \<and> deref (mutateArray (snd (simulateRoomResponse s a b L W H maxModeOrder q))
                    (fst (simulateRoomResponse s a b L W H maxModeOrder q)) v)
                 (fst (simulateRoomResponse s a b L W H maxModeOrder q)) = v"
proof -
  let ?r1 = "fst (simulateRoomResponse s a b L W H maxModeOrder q)"
  let ?s1 = "snd (simulateRoomResponse s a b L W H maxModeOrder q)"
  have cached: "map_of (responseCache ?s1) (generateCacheKey a' b' L' W' H' maxModeOrder' q')
                  = Some ?r1"
    by (simp only: assms(2) simulate_caches_result)
  have one: "simulateRoomResponse ?s1 a' b' L' W' H' maxModeOrder' q' = (?r1, ?s1)"
    by (rule simulate_hit [OF cached])
  have "map_of (responseCache (mutateArray ?s1 ?r1 v))
          (generateCacheKey a' b' L' W' H' maxModeOrder' q') = Some ?r1"
    using cached by (simp add: mutateArray_def)
  then have two: "simulateRoomResponse (mutateArray ?s1 ?r1 v) a' b' L' W' H' maxModeOrder' q'
                    = (?r1, mutateArray ?s1 ?r1 v)"
    by (rule simulate_hit)
  have "?r1 < length (heap ?s1)"
    by (rule simulate_result_allocated [OF assms(1)])
  then have three: "deref (mutateArray ?s1 ?r1 v) ?r1 = v"
    by (simp add: deref_def mutateArray_def)
  from one two three show ?thesis by simp
qed

theorem cache_hit_returns_shared_array_witness:
  "simulateRoomResponse
     (snd (simulateRoomResponse initialState
             \<lparr>pt_x = 1, pt_y = 1, pt_z = 1 / 2\<rparr> \<lparr>pt_x = 3, pt_y = 2, pt_z = 6 / 5\<rparr> 5 4 3 10 10))
     \<lparr>pt_x = 1, pt_y = 1, pt_z = 1 / 2\<rparr> \<lparr>pt_x = 3, pt_y = 2, pt_z = 6 / 5\<rparr> 5 4 3 10 10
   = (fst (simulateRoomResponse initialState
             \<lparr>pt_x = 1, pt_y = 1, pt_z = 1 / 2\<rparr> \<lparr>pt_x = 3, pt_y = 2, pt_z = 6 / 5\<rparr> 5 4 3 10 10),
      snd (simulateRoomResponse initialState
             \<lparr>pt_x = 1, pt_y = 1, pt_z = 1 / 2\<rparr> \<lparr>pt_x = 3, pt_y = 2, pt_z = 6 / 5\<rparr> 5 4 3 10 10))"
proof -
  have v: "cacheValid initialState"
    by (simp add: cacheValid_def initialState_def)
  show ?thesis
    using cache_hit_returns_shared_array [OF v refl,
            of "\<lparr>pt_x = 1, pt_y = 1, pt_z = 1 / 2\<rparr>" "\<lparr>pt_x = 3, pt_y = 2, pt_z = 6 / 5\<rparr>"
               5 4 3 10 10 "[]"]
    by blast
qed

text \<open>
  Claim C7 as stated fails in its second half. The first call computes a response of 281
  points and hands out the array the cache keeps; the caller empties that array; the next
  call with the same arguments hits the cache and returns the same array, now empty.
\<close>

theorem cache_hit_sees_mutation:
  "(let first = simulateRoomResponse initialState
                  \<lparr>pt_x = 1, pt_y = 1, pt_z = 1 / 2\<rparr> \<lparr>pt_x = 3, pt_y = 2, pt_z = 6 / 5\<rparr>
                  5 4 3 10 10;
        returned = deref (snd first) (fst first);
        mutated = mutateArray (snd first) (fst first) [];
        second = simulateRoomResponse mutated
                  \<lparr>pt_x = 1, pt_y = 1, pt_z = 1 / 2\<rparr> \<lparr>pt_x = 3, pt_y = 2, pt_z = 6 / 5\<rparr>
                  5 4 3 10 10
    in length returned = 281 \<and> fst second = fst first \<and> deref (snd second) (fst second) = []
       \<and> deref (snd second) (fst second) \<noteq> returned)"
proof -
  let ?a = "\<lparr>pt_x = 1, pt_y = 1, pt_z = 1 / 2\<rparr>"
  let ?b = "\<lparr>pt_x = 3, pt_y = 2, pt_z = 6 / 5\<rparr>"
  let ?R = "computeResponse ?a ?b 5 4 3 10 10"
  let ?k = "generateCacheKey ?a ?b 5 4 3 10 10"
  let ?s1 = "\<lparr>heap = [?R], responseCache = [(?k, 0)]\<rparr>"
  have miss: "map_of (responseCache initialState) ?k = None"
    by (simp add: initialState_def)
  have first: "simulateRoomResponse initialState ?a ?b 5 4 3 10 10 = (0, ?s1)"
    unfolding simulate_miss [OF miss]
    by (simp add: initialState_def evictIfFull_def CACHE_SIZE_LIMIT_def)
  have len: "length ?R = 281"
    using computeResponse_wellFormed [of ?a ?b 5 4 3 10 10]
    by (simp add: wellFormedResponse_def)
  have mut: "mutateArray ?s1 0 [] = \<lparr>heap = [[]], responseCache = [(?k, 0)]\<rparr>"
    by (simp add: mutateArray_def)
  have hit: "map_of (responseCache \<lparr>heap = [[]], responseCache = [(?k, 0)]\<rparr>) ?k = Some 0"
    by simp
  have second: "simulateRoomResponse \<lparr>heap = [[]], responseCache = [(?k, 0)]\<rparr> ?a ?b 5 4 3 10 10
                  = (0, \<lparr>heap = [[]], responseCache = [(?k, 0)]\<rparr>)"
    by (rule simulate_hit [OF hit])
  have ne: "[] \<noteq> ?R" using len by auto
  show ?thesis
    unfolding Let_def first
    by (simp only: fst_conv snd_conv mut second) (simp add: deref_def len ne)
qed


subsection \<open>A cached entry computed for other arguments\<close>

lemma modeTerm_no_coupling:
  assumes "calculateModePressure n m l subPos \<lparr>dim_L = L, dim_W = W, dim_H = H\<rparr>
           * calculateModePressure n m l listenerPos \<lparr>dim_L = L, dim_W = W, dim_H = H\<rparr> = 0"
  shows "modeTerm subPos listenerPos L W H q f n m l = None"
  unfolding modeTerm_def Let_def by (simp only: assms abs_zero) simp

lemma modeTerm_dc:
  "L \<noteq> 0 \<Longrightarrow> modeTerm subPos listenerPos L W H q f 0 0 0 = None"
  by (simp add: modeTerm_def)

lemma unit_cube_pressure:
  "calculateModePressure n m l p \<lparr>dim_L = 1, dim_W = 1, dim_H = 1\<rparr>
     = cos (real_of_int n * pi * (1 - pt_x p)) * cos (real_of_int m * pi * pt_y p)
       * cos (real_of_int l * pi * pt_z p)"
  by (simp add: calculateModePressure_def)

lemma grid01: "[0..1] = [0, 1::int]"
  by (simp add: upto.simps)

lemma modeTerm_centre_y:
  assumes "pt_y p = 1 / 2"
  shows "modeTerm p lis 1 1 1 q f n 1 l = None"
  by (rule modeTerm_no_coupling) (simp add: unit_cube_pressure assms)

lemma modeTerm_centre_z:
  assumes "pt_z p = 1 / 2"
  shows "modeTerm p lis 1 1 1 q f n m 1 = None"
  by (rule modeTerm_no_coupling) (simp add: unit_cube_pressure assms)

lemma modeTerm_centre_x:
  assumes "pt_x p = 1 / 2"
  shows "modeTerm p lis 1 1 1 q f 1 m l = None"
  by (rule modeTerm_no_coupling) (simp add: unit_cube_pressure assms)

lemma sumModes_near_centre:
  assumes "pt_y p = 1 / 2" "pt_z p = 1 / 2"
  shows "sumModes p lis 1 1 1 1 q f = addTerm (modeTerm p lis 1 1 1 q f 1 0 0) (0, 0)"
  by (simp add: sumModes_def grid01 modeTerm_dc modeTerm_centre_y [OF assms(1)]
        modeTerm_centre_z [OF assms(2)] addTerm_def)

lemma sumModes_centre:
  assumes "pt_x p = 1 / 2" "pt_y p = 1 / 2" "pt_z p = 1 / 2"
  shows "sumModes p lis 1 1 1 1 q f = (0, 0)"
  by (simp add: sumModes_near_centre [OF assms(2,3)] modeTerm_centre_x [OF assms(1)] addTerm_def)

lemma pythagoras_polar:
  fixes k :: real
  shows "sqrt ((k * cos P) ^ 2 + (k * sin P) ^ 2) = \<bar>k\<bar>"
proof -
  have "(k * cos P) ^ 2 + (k * sin P) ^ 2 = k ^ 2 * ((cos P) ^ 2 + (sin P) ^ 2)"
    by (simp only: power_mult_distrib distrib_left)
  also have "\<dots> = k ^ 2" by simp
  finally show ?thesis by simp
qed

lemma modeTerm_axial_shape:
  assumes "\<not> \<bar>calculateModePressure 1 0 0 subPos \<lparr>dim_L = 1, dim_W = 1, dim_H = 1\<rparr>
            * calculateModePressure 1 0 0 listenerPos \<lparr>dim_L = 1, dim_W = 1, dim_H = 1\<rparr>\<bar>
           < 1 / 10 ^ 9"
  shows "\<exists>A P. 1 \<le> A \<and> modeTerm subPos listenerPos 1 1 1 10 20 1 0 0 =
           Some (calculateModePressure 1 0 0 subPos \<lparr>dim_L = 1, dim_W = 1, dim_H = 1\<rparr>
                 * calculateModePressure 1 0 0 listenerPos \<lparr>dim_L = 1, dim_W = 1, dim_H = 1\<rparr>
                 * A * cos P,
                 calculateModePressure 1 0 0 subPos \<lparr>dim_L = 1, dim_W = 1, dim_H = 1\<rparr>
                 * calculateModePressure 1 0 0 listenerPos \<lparr>dim_L = 1, dim_W = 1, dim_H = 1\<rparr>
                 * A * sin P)"
proof -
  define r :: real where "r = 20 / (343 / 2)"
  define D :: real where "D = (1 - r ^ 2) ^ 2 + (r / 10) ^ 2"
  have D: "0 < D" "D \<le> 1" by (simp_all add: D_def r_def power2_eq_square)
  then have "sqrt D \<le> 1" "0 < sqrt D" by simp_all
  then have A: "1 \<le> 1 / sqrt D" by simp
  have "modeTerm subPos listenerPos 1 1 1 10 20 1 0 0 =
           Some (calculateModePressure 1 0 0 subPos \<lparr>dim_L = 1, dim_W = 1, dim_H = 1\<rparr>
                 * calculateModePressure 1 0 0 listenerPos \<lparr>dim_L = 1, dim_W = 1, dim_H = 1\<rparr>
                 * (1 / sqrt D) * cos (atan2 (- (r / 10)) (1 - r ^ 2)),
                 calculateModePressure 1 0 0 subPos \<lparr>dim_L = 1, dim_W = 1, dim_H = 1\<rparr>
                 * calculateModePressure 1 0 0 listenerPos \<lparr>dim_L = 1, dim_W = 1, dim_H = 1\<rparr>
                 * (1 / sqrt D) * sin (atan2 (- (r / 10)) (1 - r ^ 2)))"
    unfolding modeTerm_def Let_def
    using assms
    by (simp add: SPEED_OF_SOUND_def FREQUENCY_MAX_HZ_def D_def r_def)
  with A show ?thesis by blast
qed

lemma magnitudeToDb_audible:
  assumes "1 / 10 ^ 4 \<le> v"
  shows "- 100 < magnitudeToDb v"
proof -
  have v: "0 < v" "\<not> v \<le> 1 / 10 ^ 9"
    using assms by (simp_all add: order.strict_trans2 [OF _ assms])
  have "(10::real) powr (- 5) = inverse (10 powr 5)"
    by (rule powr_minus)
  also have "(10::real) powr 5 = 10 ^ 5"
    by (rule powr_numeral) simp
  finally have "(10::real) powr (- 5) < v"
    using assms by (simp add: inverse_eq_divide)
  then have "- 5 < log 10 v"
    using v(1) by (simp add: less_log_iff)
  then show ?thesis
    using v(2) by (simp add: magnitudeToDb_def MIN_DB_VALUE_def Let_def)
qed

lemma magnitudeToDb_silent: "magnitudeToDb 0 = - 100"
  by (simp add: magnitudeToDb_def MIN_DB_VALUE_def)

lemma computeResponse_first:
  "hd (computeResponse subPos listenerPos L W H maxModeOrder q) =
     \<lparr>freq = 20,
      db = magnitudeToDb (currentMagnitude subPos listenerPos L W H maxModeOrder q 20)\<rparr>"
proof -
  have "[20..300] = 20 # [21..300]"
    by (simp add: upto_rec1)
  then show ?thesis
    by (simp add: computeResponse_def intermediateResponse_def FREQUENCY_MIN_HZ_def
          FREQUENCY_MAX_HZ_def)
qed

lemma sin_lower_cubic:
  fixes t :: real
  assumes "0 \<le> t"
  shows "t - t ^ 3 / 6 \<le> sin t"
proof -
  have s: "(\<Sum>m<3. sin_coeff m * t ^ m) = t"
    by (simp add: numeral_3_eq_3 sin_coeff_def)
  have "\<bar>sin t - (\<Sum>m<3. sin_coeff m * t ^ m)\<bar> \<le> inverse (fact 3) * \<bar>t\<bar> ^ 3"
    by (rule Maclaurin_sin_bound)
  then have "\<bar>sin t - t\<bar> \<le> t ^ 3 / 6"
    using assms by (simp add: s fact_numeral)
  then show ?thesis by linarith
qed

lemma off_centre_pressure:
  "7 / 10 ^ 4 \<le> cos (pi * (1249 / 2500))"
proof -
  define t where "t = pi / 2500"
  have t0: "0 \<le> t" by (simp add: t_def)
  have tl: "2 / 2500 \<le> t" using pi_ge_two by (simp add: t_def)
  have tu: "t \<le> 4 / 2500" using pi_less_4 by (simp add: t_def)
  have "t ^ 3 \<le> (4 / 2500) ^ 3"
    by (rule power_mono [OF tu t0])
  moreover have "((4::real) / 2500) ^ 3 \<le> 6 / 1000000000" by (simp add: power3_eq_cube)
  ultimately have cub: "t ^ 3 / 6 \<le> 1 / 1000000000" by linarith
  have "pi / 2 - pi * (1249 / 2500) = t" by (simp add: t_def field_simps)
  moreover have "cos (pi * (1249 / 2500)) = sin (pi / 2 - pi * (1249 / 2500))"
    using cos_sin_eq [of "pi * (1249 / 2500)"] by simp
  ultimately have "cos (pi * (1249 / 2500)) = sin t"
    by (simp only:)
  moreover have "t - t ^ 3 / 6 \<le> sin t"
    by (rule sin_lower_cubic [OF t0])
  then have "7 / 10000 \<le> sin t" using tl cub by linarith
  ultimately show ?thesis by simp
qed

lemma responses_differ:
  "computeResponse \<lparr>pt_x = 1251 / 2500, pt_y = 1 / 2, pt_z = 1 / 2\<rparr>
       \<lparr>pt_x = 0, pt_y = 0, pt_z = 0\<rparr> 1 1 1 1 10
   \<noteq> computeResponse \<lparr>pt_x = 1 / 2, pt_y = 1 / 2, pt_z = 1 / 2\<rparr>
       \<lparr>pt_x = 0, pt_y = 0, pt_z = 0\<rparr> 1 1 1 1 10"
proof -
  let ?a' = "\<lparr>pt_x = 1251 / 2500, pt_y = 1 / 2, pt_z = 1 / 2\<rparr>"
  let ?a = "\<lparr>pt_x = 1 / 2, pt_y = 1 / 2, pt_z = 1 / 2\<rparr>"
  let ?b = "\<lparr>pt_x = 0, pt_y = 0, pt_z = 0\<rparr>"
  let ?d = "\<lparr>dim_L = 1, dim_W = 1, dim_H = 1\<rparr>"
  define c where "c = calculateModePressure 1 0 0 ?a' ?d * calculateModePressure 1 0 0 ?b ?d"
  have "1 - 1251 / 2500 = (1249 / 2500 :: real)" by simp
  then have cv: "c = - cos (pi * (1249 / 2500))"
    by (simp add: c_def unit_cube_pressure)
  with off_centre_pressure have cb: "7 / 10 ^ 4 \<le> \<bar>c\<bar>" by simp
  then have "\<not> \<bar>c\<bar> < 1 / 10 ^ 9" by simp
  from modeTerm_axial_shape [OF this [unfolded c_def]]
  obtain A P where A: "1 \<le> A"
    and mt: "modeTerm ?a' ?b 1 1 1 10 20 1 0 0 = Some (c * A * cos P, c * A * sin P)"
    unfolding c_def by blast
  have "sumModes ?a' ?b 1 1 1 1 10 20 = (c * A * cos P, c * A * sin P)"
    by (simp add: sumModes_near_centre mt addTerm_def)
  then have "currentMagnitude ?a' ?b 1 1 1 1 10 20 = \<bar>c * A\<bar>"
    by (simp add: currentMagnitude_def pythagoras_polar)
  moreover have "7 / 10 ^ 4 * 1 \<le> \<bar>c\<bar> * A"
    using cb A by (intro mult_mono) simp_all
  ultimately have "1 / 10 ^ 4 \<le> currentMagnitude ?a' ?b 1 1 1 1 10 20"
    using A by (simp add: abs_mult)
  then have off: "- 100 < db (hd (computeResponse ?a' ?b 1 1 1 1 10))"
    by (simp add: computeResponse_first magnitudeToDb_audible)
  have "currentMagnitude ?a ?b 1 1 1 1 10 20 = 0"
    by (simp add: currentMagnitude_def sumModes_centre)
  then have "db (hd (computeResponse ?a ?b 1 1 1 1 10)) = - 100"
    by (simp add: computeResponse_first magnitudeToDb_silent)
  with off show ?thesis by auto
qed


text \<open>
  Claim C4 as stated fails through the cache. The key rounds positions to three decimals, so
  a source at x = 0.5004 and a source at x = 0.5 share a key. In a unit cube with the
  listener in a corner and modes up to order 1: the call with the source at 0.5004 is
  computed and cached; the call with the source at 0.5 is then answered from that entry;
  the call with source and listener swapped has another key and is computed for 0.5, where
  the source sits on the nodal planes of every mode and the response is -100 dB throughout.
  The two answers differ at 20 Hz.
\<close>

theorem stale_cache_entry_breaks_symmetry:
  "(let a' = \<lparr>pt_x = 1251 / 2500, pt_y = 1 / 2, pt_z = 1 / 2\<rparr>;
        a = \<lparr>pt_x = 1 / 2, pt_y = 1 / 2, pt_z = 1 / 2\<rparr>;
        b = \<lparr>pt_x = 0, pt_y = 0, pt_z = 0\<rparr>;
        warm = snd (simulateRoomResponse initialState a' b 1 1 1 1 10);
        first = simulateRoomResponse warm a b 1 1 1 1 10;
        second = simulateRoomResponse (snd first) b a 1 1 1 1 10
    in deref (snd second) (fst second) \<noteq> deref (snd first) (fst first))"
proof -
  let ?a' = "\<lparr>pt_x = 1251 / 2500, pt_y = 1 / 2, pt_z = 1 / 2\<rparr>"
  let ?a = "\<lparr>pt_x = 1 / 2, pt_y = 1 / 2, pt_z = 1 / 2\<rparr>"
  let ?b = "\<lparr>pt_x = 0, pt_y = 0, pt_z = 0\<rparr>"
  let ?R' = "computeResponse ?a' ?b 1 1 1 1 10"
  let ?K = "generateCacheKey ?a ?b 1 1 1 1 10"
  let ?Kba = "generateCacheKey ?b ?a 1 1 1 1 10"
  let ?warm = "\<lparr>heap = [?R'], responseCache = [(?K, 0)]\<rparr>"
  have same_key: "generateCacheKey ?a' ?b 1 1 1 1 10 = ?K"
    by (simp add: generateCacheKey_def roundPoint_def round3_def js_round_def)
  have other_key: "?Kba \<noteq> ?K"
    by (simp add: generateCacheKey_def roundPoint_def round3_def js_round_def)
  have "map_of (responseCache initialState) (generateCacheKey ?a' ?b 1 1 1 1 10) = None"
    by (simp add: initialState_def)
  from simulate_miss [OF this]
  have warm: "snd (simulateRoomResponse initialState ?a' ?b 1 1 1 1 10) = ?warm"
    by (simp add: same_key initialState_def evictIfFull_def CACHE_SIZE_LIMIT_def)
  have "map_of (responseCache ?warm) ?K = Some 0" by simp
  then have first: "simulateRoomResponse ?warm ?a ?b 1 1 1 1 10 = (0, ?warm)"
    by (rule simulate_hit)
  have "map_of (responseCache ?warm) ?Kba = None"
    using other_key by simp
  then have "deref (snd (simulateRoomResponse ?warm ?b ?a 1 1 1 1 10))
                   (fst (simulateRoomResponse ?warm ?b ?a 1 1 1 1 10))
               = computeResponse ?b ?a 1 1 1 1 10"
    by (rule simulate_miss_deref)
  then have second: "deref (snd (simulateRoomResponse ?warm ?b ?a 1 1 1 1 10))
                   (fst (simulateRoomResponse ?warm ?b ?a 1 1 1 1 10))
               = computeResponse ?a ?b 1 1 1 1 10"
    by (simp only: computeResponse_symmetric [of ?b ?a])
  have "deref ?warm 0 = ?R'" by (simp add: deref_def)
  with second responses_differ show ?thesis
    unfolding Let_def warm first by (simp only: fst_conv snd_conv) auto
qed

section \<open>EQ generation\<close>

subsection \<open>Degenerate inputs\<close>

text \<open>
  Claim C6. With an empty room response or an empty target response, whatever the options,
  \<open>generateOptimalEQ\<close> returns settings with \<open>enabled = false\<close> and no band (the limits and
  the smoothing are those of the options), and \<open>generateEQPass\<close> is called for no pass.
\<close>

theorem generateOptimalEQ_empty_input:
  assumes "roomResponse = [] \<or> targetResponse = []"
  shows "generateOptimalEQ_traced roomResponse targetResponse options =
           ([], \<lparr>bands = [], enabled = False, maxBoost = maxBoostOf options,
                 maxCut = maxCutOf options, smoothing = smoothingOf options\<rparr>)
         \<and> generateOptimalEQ roomResponse targetResponse options =
             \<lparr>bands = [], enabled = False, maxBoost = maxBoostOf options,
              maxCut = maxCutOf options, smoothing = smoothingOf options\<rparr>"
  using assms
  by (auto simp: generateOptimalEQ_def generateOptimalEQ_traced_def mkSettings_def)

theorem generateOptimalEQ_empty_input_witness:
  "generateOptimalEQ_traced [] [\<lparr>freq = 20, db = 7\<rparr>]
     \<lparr>o_numBands = Some 10, o_maxBoost = None, o_maxCut = Some 12, o_smoothing = None,
      o_minQ = None, o_maxQ = None, o_schroederFreq = Some 150\<rparr>
   = ([], \<lparr>bands = [], enabled = False, maxBoost = 12, maxCut = 12, smoothing = 2 / 100\<rparr>)
   \<and> generateOptimalEQ [\<lparr>freq = 20, db = 70\<rparr>] []
     \<lparr>o_numBands = Some 10, o_maxBoost = None, o_maxCut = Some 12, o_smoothing = None,
      o_minQ = None, o_maxQ = None, o_schroederFreq = Some 150\<rparr>
   = \<lparr>bands = [], enabled = False, maxBoost = 12, maxCut = 12, smoothing = 2 / 100\<rparr>"
  using generateOptimalEQ_empty_input
          [of "[]" "[\<lparr>freq = 20, db = 7\<rparr>]"
              "\<lparr>o_numBands = Some 10, o_maxBoost = None, o_maxCut = Some 12, o_smoothing = None,
                o_minQ = None, o_maxQ = None, o_schroederFreq = Some 150\<rparr>"]
        generateOptimalEQ_empty_input
          [of "[\<lparr>freq = 20, db = 70\<rparr>]" "[]"
              "\<lparr>o_numBands = Some 10, o_maxBoost = None, o_maxCut = Some 12, o_smoothing = None,
                o_minQ = None, o_maxQ = None, o_schroederFreq = Some 150\<rparr>"]
  by (simp add: maxBoostOf_def maxCutOf_def smoothingOf_def orDefault_def)

subsection \<open>The band budget\<close>

lemma bandLoop_length:
  "int (length (bandLoop opts es bs)) \<le> max (int (length bs)) (p_maxBands opts)"
proof (induction es arbitrary: bs)
  case Nil
  show ?case by simp
next
  case (Cons e es)
  show ?case
  proof (cases "int (length bs) \<ge> p_maxBands opts")
    case True
    then show ?thesis by simp
  next
    case False
    let ?bs' = "case bandFor opts e of None \<Rightarrow> bs | Some b \<Rightarrow> bs @ [b]"
    have "int (length ?bs') \<le> p_maxBands opts"
      using False by (simp split: option.splits)
    with Cons.IH [of ?bs'] have "int (length (bandLoop opts es ?bs')) \<le> p_maxBands opts"
      by simp
    then show ?thesis using False by simp
  qed
qed

lemma generateEQPass_length:
  "int (length (generateEQPass cur tgt opts)) \<le> max 0 (p_maxBands opts)"
proof -
  let ?sig = "significantErrors (p_passType opts) (p_schroederFreq opts)
                (errorByFrequency (analyzeTargetError cur tgt))"
  let ?dist = "smartFrequencyDistribution ?sig (p_maxBands opts) (p_schroederFreq opts)
                 (p_usedFrequencies opts) (p_passType opts)"
  let ?bs = "bandLoop opts ?dist []"
  have b: "int (length ?bs) \<le> max 0 (p_maxBands opts)"
    using bandLoop_length [of opts ?dist "[]"] by simp
  have s: "int (length ?bs) < p_maxBands opts"
    if "addSpectralBalanceCorrection ?bs cur tgt (p_maxBands opts) (p_maxCut opts)
          (p_schroederFreq opts) = Some x" for x
    using that by (simp add: addSpectralBalanceCorrection_def split: if_splits)
  show ?thesis
    unfolding generateEQPass_def Let_def
    using b s by (auto split: option.splits)
qed

lemma generateEQPass_no_budget:
  assumes "p_maxBands opts \<le> 0"
  shows "generateEQPass cur tgt opts = []"
proof -
  have "int (length (generateEQPass cur tgt opts)) \<le> 0"
    using generateEQPass_length [of cur tgt opts] assms by simp
  then show ?thesis by simp
qed

lemma generateCorrectiveBands_length:
  "int (length (generateCorrectiveBands problems k)) \<le> max 0 k"
  by (simp add: generateCorrectiveBands_def Let_def)

lemma pass1Corrective_length:
  "int (length (pass1Corrective room tgt options))
     \<le> max 0 (p_maxBands (pass1Options options) - int (length (pass1Initial room tgt options)))"
  unfolding pass1Corrective_def Let_def
  using generateCorrectiveBands_length by simp

lemma pass1_budget:
  assumes "0 \<le> numBandsOf options"
  shows "p_maxBands (pass1Options options) \<le> numBandsOf options"
proof -
  have "real_of_int (numBandsOf options) * 0.3 \<le> real_of_int (numBandsOf options)"
    using assms by simp
  then have "\<lceil>real_of_int (numBandsOf options) * 0.3\<rceil> \<le> numBandsOf options"
    by (simp only: ceiling_le_iff)
  then show ?thesis by (simp add: pass1Options_def)
qed

lemma pass1_length:
  assumes "0 \<le> numBandsOf options"
  shows "int (length (pass1Initial room tgt options @ pass1Corrective room tgt options))
           \<le> numBandsOf options"
proof -
  have a: "int (length (pass1Initial room tgt options))
             \<le> max 0 (p_maxBands (pass1Options options))"
    unfolding pass1Initial_def by (rule generateEQPass_length)
  from a pass1Corrective_length [of room tgt options] pass1_budget [OF assms] assms
  show ?thesis by simp
qed

lemma generateOptimalEQ_band_count:
  assumes "0 \<le> numBandsOf options"
  shows "int (length (bands (generateOptimalEQ room tgt options))) \<le> numBandsOf options"
proof (cases "room = [] \<or> tgt = []")
  case True
  then show ?thesis
    using assms by (auto simp: generateOptimalEQ_def generateOptimalEQ_traced_def mkSettings_def)
next
  case False
  let ?n = "numBandsOf options"
  let ?p1 = "pass1Initial room tgt options @ pass1Corrective room tgt options"
  let ?r1 = "responseAfter room options (pass1Initial room tgt options)"
  let ?p2 = "generateEQPass ?r1 tgt (pass2Options options ?p1)"
  let ?r2 = "responseAfter room options (?p1 @ ?p2)"
  let ?o3 = "pass3Options options ?p1 ?p2"
  let ?p3 = "generateEQPass ?r2 tgt ?o3"
  let ?r3 = "responseAfter room options (?p1 @ ?p2 @ ?p3)"
  let ?o4 = "pass4Options options ?p1 ?p2 ?p3"
  let ?p4 = "generateEQPass ?r3 tgt ?o4"
  have l1: "int (length ?p1) \<le> ?n"
    by (rule pass1_length [OF assms])
  have "int (length ?p2) \<le> max 0 (p_maxBands (pass2Options options ?p1))"
    by (rule generateEQPass_length)
  then have l2: "int (length ?p1) + int (length ?p2) \<le> ?n"
    using l1 by (simp add: pass2Options_def)
  have "int (length ?p3) \<le> max 0 (p_maxBands ?o3)"
    by (rule generateEQPass_length)
  then have l3: "int (length ?p1) + int (length ?p2) + int (length ?p3) \<le> ?n"
    using l2 by (simp add: pass3Options_def)
  have "int (length ?p4) \<le> max 0 (p_maxBands ?o4)"
    by (rule generateEQPass_length)
  then have l4: "int (length ?p1) + int (length ?p2) + int (length ?p3) + int (length ?p4) \<le> ?n"
    using l3 by (simp add: pass4Options_def)
  show ?thesis
    using False l2 l3 l4
    by (simp add: generateOptimalEQ_def generateOptimalEQ_traced_def mkSettings_def Let_def)
qed


subsection \<open>The gain limits\<close>

lemma js_round_near: "\<bar>js_round v - v\<bar> \<le> 1 / 2"
proof -
  have lo: "real_of_int \<lfloor>v + 1 / 2\<rfloor> \<le> v + 1 / 2"
    by (rule of_int_floor_le)
  have hi: "v + 1 / 2 < real_of_int \<lfloor>v + 1 / 2\<rfloor> + 1"
    by linarith
  show ?thesis
    unfolding js_round_def using lo hi by (intro abs_leI) linarith+
qed

lemma js_round_tenths: "\<bar>js_round (v * 10) / 10 - v\<bar> \<le> 1 / 20"
proof -
  have "\<bar>js_round (v * 10) - v * 10\<bar> \<le> 1 / 2"
    by (rule js_round_near)
  then show ?thesis by linarith
qed

lemma rounded_gain_bound:
  assumes "\<bar>g\<bar> \<le> c"
  shows "\<bar>js_round (g * 10) / 10\<bar> \<le> c + 1 / 20"
  using assms js_round_tenths [of g] by linarith

lemma requiredGain_bound:
  assumes "0 \<le> p_maxBoost opts" and "0 \<le> p_maxCut opts"
  shows "\<bar>requiredGain opts e\<bar> \<le> max (p_maxBoost opts) (p_maxCut opts)"
  using assms by (auto simp: requiredGain_def Let_def abs_le_iff min_def max_def)

lemma bandFor_gain:
  assumes "0 \<le> p_maxBoost opts" and "0 \<le> p_maxCut opts" and "bandFor opts e = Some b"
  shows "\<bar>gain b\<bar> \<le> max (p_maxBoost opts) (p_maxCut opts) + 1 / 20"
proof -
  from assms(3) have "gain b = js_round (requiredGain opts e * 10) / 10"
    by (auto simp: bandFor_def Let_def split: if_splits)
  then show ?thesis
    using rounded_gain_bound [OF requiredGain_bound [OF assms(1,2), of e]] by simp
qed

lemma bandLoop_gain:
  assumes "0 \<le> p_maxBoost opts" and "0 \<le> p_maxCut opts"
    and "\<forall>b\<in>set bs. \<bar>gain b\<bar> \<le> max (p_maxBoost opts) (p_maxCut opts) + 1 / 20"
  shows "\<forall>b\<in>set (bandLoop opts es bs).
           \<bar>gain b\<bar> \<le> max (p_maxBoost opts) (p_maxCut opts) + 1 / 20"
  using assms(3)
proof (induction es arbitrary: bs)
  case Nil
  then show ?case by simp
next
  case (Cons e es)
  let ?bs' = "case bandFor opts e of None \<Rightarrow> bs | Some b \<Rightarrow> bs @ [b]"
  have "\<forall>b\<in>set ?bs'. \<bar>gain b\<bar> \<le> max (p_maxBoost opts) (p_maxCut opts) + 1 / 20"
    using Cons.prems bandFor_gain [OF assms(1,2), of e]
    by (auto split: option.splits)
  from Cons.IH [OF this] Cons.prems show ?case by simp
qed

lemma compensation_bound:
  fixes mc av :: real
  assumes "0 \<le> mc" and "\<not> av < 1.5"
  shows "\<bar>max (- mc * 0.6) (- av * 0.8)\<bar> \<le> mc"
proof -
  have "- mc * 0.6 \<le> 0" "- av * 0.8 \<le> 0" "- mc \<le> - mc * 0.6"
    using assms by simp_all
  then show ?thesis by (intro abs_leI) (auto simp: max_def)
qed

lemma spectralBalance_gain:
  assumes "0 \<le> mc"
    and "addSpectralBalanceCorrection bs cur tgt mb mc sf = Some b"
  shows "\<bar>gain b\<bar> \<le> mc + 1 / 20"
proof -
  let ?tot = "fold (highFreqStep (filter (\<lambda>p. freq p \<ge> 150 \<and> freq p \<le> 280) tgt))
                (filter (\<lambda>p. freq p \<ge> 150 \<and> freq p \<le> 280) cur) (0, 0)"
  let ?av = "fst ?tot / real (snd ?tot)"
  from assms(2) have av: "\<not> ?av < 1.5"
    unfolding addSpectralBalanceCorrection_def Let_def
    by (simp split: if_splits)
  from assms(2)
  have g: "b = \<lparr>frequency = 200,
                  gain = js_round (max (- mc * 0.6) (- ?av * 0.8) * 10) / 10,
                  qfactor = 0.8, btype = Peak\<rparr>"
    unfolding addSpectralBalanceCorrection_def Let_def
    by (simp split: if_splits)
  have "\<bar>js_round (max (- mc * 0.6) (- ?av * 0.8) * 10) / 10\<bar> \<le> mc + 1 / 20"
    by (rule rounded_gain_bound [OF compensation_bound [OF assms(1) av]])
  then show ?thesis by (simp only: g EQBand.select_convs)
qed

lemma generateEQPass_gain:
  assumes "0 \<le> p_maxBoost opts" and "0 \<le> p_maxCut opts"
    and "b \<in> set (generateEQPass cur tgt opts)"
  shows "\<bar>gain b\<bar> \<le> max (p_maxBoost opts) (p_maxCut opts) + 1 / 20"
proof -
  let ?sig = "significantErrors (p_passType opts) (p_schroederFreq opts)
                (errorByFrequency (analyzeTargetError cur tgt))"
  let ?dist = "smartFrequencyDistribution ?sig (p_maxBands opts) (p_schroederFreq opts)
                 (p_usedFrequencies opts) (p_passType opts)"
  let ?bs = "bandLoop opts ?dist []"
  have loop: "\<forall>b\<in>set ?bs. \<bar>gain b\<bar> \<le> max (p_maxBoost opts) (p_maxCut opts) + 1 / 20"
    by (rule bandLoop_gain [OF assms(1,2)]) simp
  have spec: "\<bar>gain x\<bar> \<le> max (p_maxBoost opts) (p_maxCut opts) + 1 / 20"
    if "addSpectralBalanceCorrection ?bs cur tgt (p_maxBands opts) (p_maxCut opts)
          (p_schroederFreq opts) = Some x" for x
    using spectralBalance_gain [OF assms(2) that] by simp
  from assms(3) have "b \<in> set ?bs
      \<or> addSpectralBalanceCorrection ?bs cur tgt (p_maxBands opts) (p_maxCut opts)
          (p_schroederFreq opts) = Some b"
    unfolding generateEQPass_def Let_def by (auto split: if_splits option.splits)
  with loop spec show ?thesis by blast
qed

lemma scaled_limits:
  fixes mb mc k :: real
  assumes "0 \<le> mb" "0 \<le> mc" "0 \<le> k" "k \<le> 0.95"
  shows "max (mb * k) (mc * k) \<le> 0.95 * max mb mc"
proof -
  have b: "mb * k \<le> mb * 0.95"
    by (rule mult_left_mono [OF assms(4) assms(1)])
  have c: "mc * k \<le> mc * 0.95"
    by (rule mult_left_mono [OF assms(4) assms(2)])
  have m1: "mb * 0.95 \<le> 0.95 * max mb mc" by simp
  have m2: "mc * 0.95 \<le> 0.95 * max mb mc" by simp
  from b c m1 m2 show ?thesis by (intro max.boundedI) linarith+
qed

lemma pass_gain:
  assumes "0 \<le> maxBoostOf options" and "0 \<le> maxCutOf options"
    and "p_maxBoost opts = maxBoostOf options * k" and "p_maxCut opts = maxCutOf options * k"
    and "0 \<le> k" and "k \<le> 0.95"
    and "b \<in> set (generateEQPass cur tgt opts)"
  shows "\<bar>gain b\<bar> \<le> 0.95 * max (maxBoostOf options) (maxCutOf options) + 0.05"
proof -
  have "0 \<le> p_maxBoost opts" "0 \<le> p_maxCut opts"
    using assms(1-5) by simp_all
  from generateEQPass_gain [OF this assms(7)]
  have "\<bar>gain b\<bar> \<le> max (maxBoostOf options * k) (maxCutOf options * k) + 1 / 20"
    by (simp only: assms(3,4))
  with scaled_limits [OF assms(1,2,5,6)] show ?thesis by simp
qed

lemma generateOptimalEQ_bands_passes:
  assumes "room \<noteq> []" and "tgt \<noteq> []"
  shows "bands (generateOptimalEQ room tgt options) =
           sort_key frequency
             (pass1Initial room tgt options @ pass1Corrective room tgt options
              @ pass2Bands room tgt options @ pass3Bands room tgt options
              @ pass4Bands room tgt options)"
  using assms
  by (simp add: generateOptimalEQ_def generateOptimalEQ_traced_def mkSettings_def Let_def
        pass1Bands_def pass2Bands_def pass3Bands_def pass4Bands_def)

lemma pass_bands_gain:
  assumes "0 \<le> maxBoostOf options" and "0 \<le> maxCutOf options"
    and "b \<in> set (pass1Initial room tgt options @ pass2Bands room tgt options
                   @ pass3Bands room tgt options @ pass4Bands room tgt options)"
  shows "\<bar>gain b\<bar> \<le> 0.95 * max (maxBoostOf options) (maxCutOf options) + 0.05"
proof -
  note pg = pass_gain [OF assms(1,2)]
  from assms(3) consider
      (one) "b \<in> set (pass1Initial room tgt options)"
    | (two) "b \<in> set (pass2Bands room tgt options)"
    | (three) "b \<in> set (pass3Bands room tgt options)"
    | (four) "b \<in> set (pass4Bands room tgt options)"
    by auto
  then show ?thesis
  proof cases
    case one
    then show ?thesis
      unfolding pass1Initial_def
      by (rule pg [where k = "0.95", rotated 4]) (simp_all add: pass1Options_def)
  next
    case two
    then show ?thesis
      unfolding pass2Bands_def
      by (rule pg [where k = "0.9", rotated 4]) (simp_all add: pass2Options_def)
  next
    case three
    then have "b \<in> set (generateEQPass
        (responseAfter room options
           (pass1Bands room tgt options @ pass2Bands room tgt options)) tgt
        (pass3Options options (pass1Bands room tgt options) (pass2Bands room tgt options)))"
      by (simp add: pass3Bands_def Let_def split: if_splits)
    then show ?thesis
      by (rule pg [where k = "0.8", rotated 4]) (simp_all add: pass3Options_def)
  next
    case four
    then have "b \<in> set (generateEQPass
        (responseAfter room options
           (pass1Bands room tgt options @ pass2Bands room tgt options
            @ pass3Bands room tgt options)) tgt
        (pass4Options options (pass1Bands room tgt options) (pass2Bands room tgt options)
           (pass3Bands room tgt options)))"
      by (simp add: pass4Bands_def Let_def split: if_splits)
    then show ?thesis
      by (rule pg [where k = "0.7", rotated 4]) (simp_all add: pass4Options_def)
  qed
qed

lemma generateOptimalEQ_no_input:
  assumes "room = [] \<or> tgt = []"
  shows "bands (generateOptimalEQ room tgt options) = []"
  using assms
  by (auto simp: generateOptimalEQ_def generateOptimalEQ_traced_def mkSettings_def)

subsection \<open>One band at the rounded limit\<close>

lemma pass1_example:
  "pass1Initial [\<lparr>freq = 30, db = - 60\<rparr>] [\<lparr>freq = 30, db = 0\<rparr>]
     \<lparr>o_numBands = Some 1, o_maxBoost = Some (3 / 10), o_maxCut = Some (3 / 10),
      o_smoothing = None, o_minQ = None, o_maxQ = None, o_schroederFreq = None\<rparr>
   = [\<lparr>frequency = 30, gain = 3 / 10, qfactor = 11 / 10, btype = Peak\<rparr>]"
  by (simp add: pass1Initial_def pass1Options_def generateEQPass_def analyzeTargetError_def
        analyzeStep_def errorAcc0_def significantErrors_def getErrorThreshold_def
        errorWeight_def smartFrequencyDistribution_def zonesFor_def mkZone_def zonePass_def
        wellSpaced_def getMinSpacing_def bandFor_def requiredGain_def passScaling_def
        frequencyScaling_def calculatePassQ_def baseQFor_def js_round_def
        addSpectralBalanceCorrection_def numBandsOf_def maxBoostOf_def maxCutOf_def
        smoothingOf_def minQOf_def maxQOf_def schroederFreqOf_def orDefault_def Let_def)

lemma pass1Corrective_example:
  "pass1Corrective [\<lparr>freq = 30, db = - 60\<rparr>] [\<lparr>freq = 30, db = 0\<rparr>]
     \<lparr>o_numBands = Some 1, o_maxBoost = Some (3 / 10), o_maxCut = Some (3 / 10),
      o_smoothing = None, o_minQ = None, o_maxQ = None, o_schroederFreq = None\<rparr> = []"
  unfolding pass1Corrective_def Let_def pass1_example
  by (simp add: analyzePostEQProblems_def)

lemma rounding_example_bands:
  "bands (generateOptimalEQ [\<lparr>freq = 30, db = - 60\<rparr>] [\<lparr>freq = 30, db = 0\<rparr>]
       \<lparr>o_numBands = Some 1, o_maxBoost = Some (3 / 10), o_maxCut = Some (3 / 10),
        o_smoothing = None, o_minQ = None, o_maxQ = None, o_schroederFreq = None\<rparr>)
     = [\<lparr>frequency = 30, gain = 3 / 10, qfactor = 11 / 10, btype = Peak\<rparr>]"
proof -
  let ?room = "[\<lparr>freq = 30, db = - 60\<rparr>]"
  let ?tgt = "[\<lparr>freq = 30, db = 0\<rparr>]"
  let ?o = "\<lparr>o_numBands = Some 1, o_maxBoost = Some (3 / 10), o_maxCut = Some (3 / 10),
             o_smoothing = None, o_minQ = None, o_maxQ = None, o_schroederFreq = None\<rparr>"
  let ?band = "\<lparr>frequency = 30, gain = 3 / 10, qfactor = 11 / 10, btype = Peak\<rparr>"
  have n: "numBandsOf ?o = 1"
    by (simp add: numBandsOf_def orDefault_def)
  have o2: "p_maxBands (pass2Options ?o [?band]) \<le> 0"
    by (simp add: pass2Options_def n)
  have p2: "generateEQPass r ?tgt (pass2Options ?o [?band]) = []" for r
    by (rule generateEQPass_no_budget [OF o2])
  have o3: "\<not> p_maxBands (pass3Options ?o [?band] []) > 0"
    by (simp add: pass3Options_def n)
  have "generateOptimalEQ_traced ?room ?tgt ?o
          = ([Broad, Targeted], mkSettings ?o True [?band])"
    unfolding generateOptimalEQ_traced_def Let_def pass1_example pass1Corrective_example
      append_Nil2 p2
    using o3 by simp
  then show ?thesis
    by (simp add: generateOptimalEQ_def mkSettings_def)
qed


text \<open>
  Claim C2, as the code has it. For a band budget \<open>numBands \<ge> 0\<close> and limits
  \<open>maxBoost, maxCut \<ge> 0\<close>: \<open>generateOptimalEQ\<close> returns at most \<open>numBands\<close> bands; for
  non-empty inputs they are, sorted by frequency, the bands of the correction passes 1 to
  4 (\<open>generateEQPass\<close>, a spectral-balance band included) together with the corrective
  bands appended in pass 1, and for an empty input there is none; every band of a
  correction pass has \<open>|gain| \<le> 0.95 * max maxBoost maxCut + 0.05\<close>, the gain being limited
  to the pass-scaled ceiling and then rounded to 0.1 dB. No bound is stated for the
  corrective bands.
\<close>

theorem generateOptimalEQ_budget_and_gain:
  assumes "0 \<le> numBandsOf options" and "0 \<le> maxBoostOf options" and "0 \<le> maxCutOf options"
  shows "int (length (bands (generateOptimalEQ room tgt options))) \<le> numBandsOf options
         \<and> (room = [] \<or> tgt = [] \<longrightarrow> bands (generateOptimalEQ room tgt options) = [])
         \<and> (room \<noteq> [] \<and> tgt \<noteq> [] \<longrightarrow>
              bands (generateOptimalEQ room tgt options) =
                sort_key frequency
                  (pass1Initial room tgt options @ pass1Corrective room tgt options
                   @ pass2Bands room tgt options @ pass3Bands room tgt options
                   @ pass4Bands room tgt options))
         \<and> (\<forall>b\<in>set (pass1Initial room tgt options @ pass2Bands room tgt options
                      @ pass3Bands room tgt options @ pass4Bands room tgt options).
               \<bar>gain b\<bar> \<le> 0.95 * max (maxBoostOf options) (maxCutOf options) + 0.05)"
proof (intro conjI impI ballI)
  show "int (length (bands (generateOptimalEQ room tgt options))) \<le> numBandsOf options"
    by (rule generateOptimalEQ_band_count [OF assms(1)])
next
  assume "room = [] \<or> tgt = []"
  then show "bands (generateOptimalEQ room tgt options) = []"
    by (rule generateOptimalEQ_no_input)
next
  assume "room \<noteq> [] \<and> tgt \<noteq> []"
  then show "bands (generateOptimalEQ room tgt options) =
                sort_key frequency
                  (pass1Initial room tgt options @ pass1Corrective room tgt options
                   @ pass2Bands room tgt options @ pass3Bands room tgt options
                   @ pass4Bands room tgt options)"
    by (intro generateOptimalEQ_bands_passes) simp_all
next
  fix b
  assume "b \<in> set (pass1Initial room tgt options @ pass2Bands room tgt options
                      @ pass3Bands room tgt options @ pass4Bands room tgt options)"
  then show "\<bar>gain b\<bar> \<le> 0.95 * max (maxBoostOf options) (maxCutOf options) + 0.05"
    by (rule pass_bands_gain [OF assms(2,3)])
qed

theorem generateOptimalEQ_budget_and_gain_witness:
  "int (length (bands (generateOptimalEQ
       [\<lparr>freq = 30, db = - 60\<rparr>] [\<lparr>freq = 30, db = 0\<rparr>]
       \<lparr>o_numBands = Some 1, o_maxBoost = Some (3 / 10), o_maxCut = Some (3 / 10),
        o_smoothing = None, o_minQ = None, o_maxQ = None, o_schroederFreq = None\<rparr>))) \<le> 1
   \<and> \<bar>gain (hd (pass1Initial
       [\<lparr>freq = 30, db = - 60\<rparr>] [\<lparr>freq = 30, db = 0\<rparr>]
       \<lparr>o_numBands = Some 1, o_maxBoost = Some (3 / 10), o_maxCut = Some (3 / 10),
        o_smoothing = None, o_minQ = None, o_maxQ = None, o_schroederFreq = None\<rparr>))\<bar>
       \<le> 0.95 * (3 / 10) + 0.05
   \<and> bands (generateOptimalEQ
       [\<lparr>freq = 30, db = - 60\<rparr>] [\<lparr>freq = 30, db = 0\<rparr>]
       \<lparr>o_numBands = Some 1, o_maxBoost = Some (3 / 10), o_maxCut = Some (3 / 10),
        o_smoothing = None, o_minQ = None, o_maxQ = None, o_schroederFreq = None\<rparr>)
     = sort_key frequency
         (pass1Initial [\<lparr>freq = 30, db = - 60\<rparr>] [\<lparr>freq = 30, db = 0\<rparr>]
            \<lparr>o_numBands = Some 1, o_maxBoost = Some (3 / 10), o_maxCut = Some (3 / 10),
             o_smoothing = None, o_minQ = None, o_maxQ = None, o_schroederFreq = None\<rparr>
          @ pass1Corrective [\<lparr>freq = 30, db = - 60\<rparr>] [\<lparr>freq = 30, db = 0\<rparr>]
            \<lparr>o_numBands = Some 1, o_maxBoost = Some (3 / 10), o_maxCut = Some (3 / 10),
             o_smoothing = None, o_minQ = None, o_maxQ = None, o_schroederFreq = None\<rparr>
          @ pass2Bands [\<lparr>freq = 30, db = - 60\<rparr>] [\<lparr>freq = 30, db = 0\<rparr>]
            \<lparr>o_numBands = Some 1, o_maxBoost = Some (3 / 10), o_maxCut = Some (3 / 10),
             o_smoothing = None, o_minQ = None, o_maxQ = None, o_schroederFreq = None\<rparr>
          @ pass3Bands [\<lparr>freq = 30, db = - 60\<rparr>] [\<lparr>freq = 30, db = 0\<rparr>]
            \<lparr>o_numBands = Some 1, o_maxBoost = Some (3 / 10), o_maxCut = Some (3 / 10),
             o_smoothing = None, o_minQ = None, o_maxQ = None, o_schroederFreq = None\<rparr>
          @ pass4Bands [\<lparr>freq = 30, db = - 60\<rparr>] [\<lparr>freq = 30, db = 0\<rparr>]
            \<lparr>o_numBands = Some 1, o_maxBoost = Some (3 / 10), o_maxCut = Some (3 / 10),
             o_smoothing = None, o_minQ = None, o_maxQ = None, o_schroederFreq = None\<rparr>)"
proof -
  let ?room = "[\<lparr>freq = 30, db = - 60\<rparr>]"
  let ?tgt = "[\<lparr>freq = 30, db = 0\<rparr>]"
  let ?o = "\<lparr>o_numBands = Some 1, o_maxBoost = Some (3 / 10), o_maxCut = Some (3 / 10),
             o_smoothing = None, o_minQ = None, o_maxQ = None, o_schroederFreq = None\<rparr>"
  have h: "0 \<le> numBandsOf ?o" "0 \<le> maxBoostOf ?o" "0 \<le> maxCutOf ?o"
    by (simp_all add: numBandsOf_def maxBoostOf_def maxCutOf_def orDefault_def)
  have n: "numBandsOf ?o = 1" "max (maxBoostOf ?o) (maxCutOf ?o) = 3 / 10"
    by (simp_all add: numBandsOf_def maxBoostOf_def maxCutOf_def orDefault_def)
  have m: "hd (pass1Initial ?room ?tgt ?o)
             \<in> set (pass1Initial ?room ?tgt ?o @ pass2Bands ?room ?tgt ?o
                    @ pass3Bands ?room ?tgt ?o @ pass4Bands ?room ?tgt ?o)"
    by (simp add: pass1_example)
  from generateOptimalEQ_budget_and_gain [OF h, of ?room ?tgt] m
  show ?thesis
    unfolding n by (intro conjI) (blast, blast, simp)
qed

text \<open>
  Claim C2 as stated fails in its gain bound. With \<open>numBands = 1\<close> and
  \<open>maxBoost = maxCut = 0.3\<close>, a room response 60 dB below the target at 30 Hz gets one
  band: the required gain is cut to the pass-1 ceiling \<open>0.3 * 0.95 = 0.285\<close> dB and then
  rounded to one decimal, 0.3 dB, which is above \<open>0.95 * max maxBoost maxCut\<close>.
\<close>

theorem rounded_gain_exceeds_scaled_limit:
  "bands (generateOptimalEQ [\<lparr>freq = 30, db = - 60\<rparr>] [\<lparr>freq = 30, db = 0\<rparr>]
       \<lparr>o_numBands = Some 1, o_maxBoost = Some (3 / 10), o_maxCut = Some (3 / 10),
        o_smoothing = None, o_minQ = None, o_maxQ = None, o_schroederFreq = None\<rparr>)
     = [\<lparr>frequency = 30, gain = 3 / 10, qfactor = 11 / 10, btype = Peak\<rparr>]
   \<and> 0.95 * max (maxBoostOf \<lparr>o_numBands = Some 1, o_maxBoost = Some (3 / 10),
                     o_maxCut = Some (3 / 10), o_smoothing = None, o_minQ = None,
                     o_maxQ = None, o_schroederFreq = None\<rparr>)
                  (maxCutOf \<lparr>o_numBands = Some 1, o_maxBoost = Some (3 / 10),
                     o_maxCut = Some (3 / 10), o_smoothing = None, o_minQ = None,
                     o_maxQ = None, o_schroederFreq = None\<rparr>)
       < \<bar>gain \<lparr>frequency = 30, gain = 3 / 10, qfactor = 11 / 10, btype = Peak\<rparr>\<bar>"
proof
  show "bands (generateOptimalEQ [\<lparr>freq = 30, db = - 60\<rparr>] [\<lparr>freq = 30, db = 0\<rparr>]
       \<lparr>o_numBands = Some 1, o_maxBoost = Some (3 / 10), o_maxCut = Some (3 / 10),
        o_smoothing = None, o_minQ = None, o_maxQ = None, o_schroederFreq = None\<rparr>)
     = [\<lparr>frequency = 30, gain = 3 / 10, qfactor = 11 / 10, btype = Peak\<rparr>]"
    by (rule rounding_example_bands)
next
  show "0.95 * max (maxBoostOf \<lparr>o_numBands = Some 1, o_maxBoost = Some (3 / 10),
                     o_maxCut = Some (3 / 10), o_smoothing = None, o_minQ = None,
                     o_maxQ = None, o_schroederFreq = None\<rparr>)
                  (maxCutOf \<lparr>o_numBands = Some 1, o_maxBoost = Some (3 / 10),
                     o_maxCut = Some (3 / 10), o_smoothing = None, o_minQ = None,
                     o_maxQ = None, o_schroederFreq = None\<rparr>)
       < \<bar>gain \<lparr>frequency = 30, gain = 3 / 10, qfactor = 11 / 10, btype = Peak\<rparr>\<bar>"
    by (simp add: maxBoostOf_def maxCutOf_def orDefault_def)
qed


subsection \<open>Corrective bands\<close>

lemma pass1_three_point:
  "pass1Initial [\<lparr>freq = 30, db = - 60\<rparr>, \<lparr>freq = 40, db = 40\<rparr>, \<lparr>freq = 50, db = - 60\<rparr>]
     [\<lparr>freq = 30, db = 0\<rparr>, \<lparr>freq = 40, db = 0\<rparr>, \<lparr>freq = 50, db = 0\<rparr>]
     \<lparr>o_numBands = Some 10, o_maxBoost = None, o_maxCut = None,
      o_smoothing = None, o_minQ = None, o_maxQ = None, o_schroederFreq = None\<rparr>
   = [\<lparr>frequency = 30, gain = 57 / 5, qfactor = 11 / 10, btype = Peak\<rparr>,
      \<lparr>frequency = 50, gain = 57 / 5, qfactor = 13 / 10, btype = Peak\<rparr>]"
  by (simp add: pass1Initial_def pass1Options_def generateEQPass_def analyzeTargetError_def
        analyzeStep_def errorAcc0_def significantErrors_def getErrorThreshold_def
        errorWeight_def smartFrequencyDistribution_def zonesFor_def mkZone_def zonePass_def
        wellSpaced_def getMinSpacing_def bandFor_def requiredGain_def passScaling_def
        frequencyScaling_def calculatePassQ_def baseQFor_def js_round_def
        addSpectralBalanceCorrection_def numBandsOf_def maxBoostOf_def maxCutOf_def
        smoothingOf_def minQOf_def maxQOf_def schroederFreqOf_def orDefault_def Let_def)

lemma problems_three_point:
  assumes "A \<le> 3" "2 < B" "C \<le> 3"
  shows "analyzePostEQProblems [\<lparr>freq = 30, db = A\<rparr>, \<lparr>freq = 40, db = B\<rparr>, \<lparr>freq = 50, db = C\<rparr>]
     [\<lparr>freq = 30, db = 0\<rparr>, \<lparr>freq = 40, db = 0\<rparr>, \<lparr>freq = 50, db = 0\<rparr>]
     [\<lparr>frequency = 30, gain = 57 / 5, qfactor = 11 / 10, btype = Peak\<rparr>,
      \<lparr>frequency = 50, gain = 57 / 5, qfactor = 13 / 10, btype = Peak\<rparr>] sf
   = [\<lparr>prob_frequency = 40, prob_type = ProblemPeak, prob_severity = B,
       prob_cause = BoostInteraction\<rparr>]"
  using assms
  by (simp add: analyzePostEQProblems_def checkFreqs_def upto.simps overshootOf_def
        List.map_filter_simps Let_def)

lemma boost_contribution_nonneg:
  assumes "0 < gain band"
  shows "0 \<le> calculateBandResponse fr band"
proof (cases "band_ignored fr band \<or> non_finite band")
  case True
  then show ?thesis
    by (auto simp: calculateBandResponse_ignored calculateBandResponse_overflow)
next
  case False
  have g: "1 \<le> (10::real) powr (gain band / 20)"
    using assms by (simp add: ge_one_powr_ge_zero)
  have "0 \<le> (10 powr (gain band / 20) - 1)
              / (1 + (qfactor band * (fr / frequency band - frequency band / fr))\<^sup>2)"
    using g by (intro divide_nonneg_pos) (simp_all add: add_pos_nonneg)
  then have "1 \<le> bell_H fr band"
    by (simp add: bell_H_def)
  then have "0 \<le> log 10 (bell_H fr band)"
    by simp
  moreover have "calculateBandResponse fr band
                   = max (- 50) (min 20 (20 * log 10 (bell_H fr band)))"
    using False assms by (intro calculateBandResponse_formula) simp_all
  ultimately show ?thesis by simp
qed


lemma boost_pair_total:
  assumes "0 < gain b1" "0 < gain b2"
  shows "0 \<le> totalGain [b1, b2] fr \<and> totalGain [b1, b2] fr \<le> 40"
proof -
  have "calculateBandResponse fr b1 \<le> 20" "calculateBandResponse fr b2 \<le> 20"
    using assms calculateBandResponse_range [of b1 fr] calculateBandResponse_range [of b2 fr]
    by simp_all
  then show ?thesis
    using boost_contribution_nonneg [OF assms(1), of fr]
      boost_contribution_nonneg [OF assms(2), of fr]
    by (simp add: totalGain_sum)
qed

lemma js_round_mono: "u \<le> v \<Longrightarrow> js_round u \<le> js_round v"
  by (simp add: js_round_def floor_mono)

lemma pass1Corrective_three_point:
  "\<exists>B. 40 \<le> B \<and>
     pass1Corrective
       [\<lparr>freq = 30, db = - 60\<rparr>, \<lparr>freq = 40, db = 40\<rparr>, \<lparr>freq = 50, db = - 60\<rparr>]
       [\<lparr>freq = 30, db = 0\<rparr>, \<lparr>freq = 40, db = 0\<rparr>, \<lparr>freq = 50, db = 0\<rparr>]
       \<lparr>o_numBands = Some 10, o_maxBoost = None, o_maxCut = None,
        o_smoothing = None, o_minQ = None, o_maxQ = None, o_schroederFreq = None\<rparr>
     = [\<lparr>frequency = 40, gain = js_round (- B * 0.95 * 10) / 10, qfactor = 3.5,
         btype = Peak\<rparr>]"
proof -
  let ?room = "[\<lparr>freq = 30, db = - 60\<rparr>, \<lparr>freq = 40, db = 40\<rparr>, \<lparr>freq = 50, db = - 60\<rparr>]"
  let ?tgt = "[\<lparr>freq = 30, db = 0\<rparr>, \<lparr>freq = 40, db = 0\<rparr>, \<lparr>freq = 50, db = 0\<rparr>]"
  let ?o = "\<lparr>o_numBands = Some 10, o_maxBoost = None, o_maxCut = None,
             o_smoothing = None, o_minQ = None, o_maxQ = None, o_schroederFreq = None\<rparr>"
  let ?b1 = "\<lparr>frequency = 30, gain = 57 / 5, qfactor = 11 / 10, btype = Peak\<rparr>"
  let ?b2 = "\<lparr>frequency = 50, gain = 57 / 5, qfactor = 13 / 10, btype = Peak\<rparr>"
  define A where "A = max (- 80) (min 130 (- 60 + totalGain [?b1, ?b2] 30))"
  define B where "B = max (- 80) (min 130 (40 + totalGain [?b1, ?b2] 40))"
  define C where "C = max (- 80) (min 130 (- 60 + totalGain [?b1, ?b2] 50))"
  have t: "0 \<le> totalGain [?b1, ?b2] fr \<and> totalGain [?b1, ?b2] fr \<le> 40" for fr
    by (rule boost_pair_total) simp_all
  have bounds: "A \<le> 3" "2 < B" "C \<le> 3" "40 \<le> B"
    using t [of 30] t [of 40] t [of 50] by (simp_all add: A_def B_def C_def)
  have after: "responseAfter ?room ?o [?b1, ?b2]
                 = [\<lparr>freq = 30, db = A\<rparr>, \<lparr>freq = 40, db = B\<rparr>, \<lparr>freq = 50, db = C\<rparr>]"
    by (simp add: responseAfter_def applyEQToResponse_def mkSettings_def A_def B_def C_def)
  have budget: "p_maxBands (pass1Options ?o) = 3"
    by (simp add: pass1Options_def numBandsOf_def orDefault_def)
  have "pass1Corrective ?room ?tgt ?o
          = [\<lparr>frequency = 40, gain = js_round (- B * 0.95 * 10) / 10, qfactor = 3.5,
              btype = Peak\<rparr>]"
    unfolding pass1Corrective_def Let_def pass1_three_point after
      problems_three_point [OF bounds(1,2,3)] budget
    by (simp add: generateCorrectiveBands_def correctiveBand_def js_round_def)
  with bounds(4) show ?thesis by blast
qed

lemma corrective_bands_returned:
  assumes "room \<noteq> []" "tgt \<noteq> []"
  shows "set (pass1Corrective room tgt options)
           \<subseteq> set (bands (generateOptimalEQ room tgt options))"
  using assms
  by (auto simp: generateOptimalEQ_def generateOptimalEQ_traced_def mkSettings_def Let_def)

text \<open>
  The corrective bands of pass 1 are not limited by \<open>maxCut\<close>. With the default limits
  (\<open>maxCut = 18\<close>) and ten bands, a response 60 dB below the target at 30 and 50 Hz and
  40 dB above it at 40 Hz gets two boosts of 11.4 dB in pass 1; the post-EQ analysis finds
  the level at 40 Hz, between them, at least 40 dB above the target, and the corrective
  band for it is a cut of at least 38 dB, which the settings return.
\<close>

theorem corrective_cut_beyond_maxCut:
  "\<exists>b\<in>set (bands (generateOptimalEQ
       [\<lparr>freq = 30, db = - 60\<rparr>, \<lparr>freq = 40, db = 40\<rparr>, \<lparr>freq = 50, db = - 60\<rparr>]
       [\<lparr>freq = 30, db = 0\<rparr>, \<lparr>freq = 40, db = 0\<rparr>, \<lparr>freq = 50, db = 0\<rparr>]
       \<lparr>o_numBands = Some 10, o_maxBoost = None, o_maxCut = None,
        o_smoothing = None, o_minQ = None, o_maxQ = None, o_schroederFreq = None\<rparr>)).
     frequency b = 40 \<and> gain b \<le> - 38"
proof -
  let ?room = "[\<lparr>freq = 30, db = - 60\<rparr>, \<lparr>freq = 40, db = 40\<rparr>, \<lparr>freq = 50, db = - 60\<rparr>]"
  let ?tgt = "[\<lparr>freq = 30, db = 0\<rparr>, \<lparr>freq = 40, db = 0\<rparr>, \<lparr>freq = 50, db = 0\<rparr>]"
  let ?o = "\<lparr>o_numBands = Some 10, o_maxBoost = None, o_maxCut = None,
             o_smoothing = None, o_minQ = None, o_maxQ = None, o_schroederFreq = None\<rparr>"
  from pass1Corrective_three_point obtain B where B: "40 \<le> B"
    and c: "pass1Corrective ?room ?tgt ?o
          = [\<lparr>frequency = 40, gain = js_round (- B * 0.95 * 10) / 10, qfactor = 3.5,
              btype = Peak\<rparr>]"
    by blast
  have "- B * 0.95 * 10 \<le> - 380" using B by simp
  then have "js_round (- B * 0.95 * 10) \<le> js_round (- 380)"
    by (rule js_round_mono)
  also have "js_round (- 380) = - 380"
    by (simp add: js_round_def)
  finally have g: "js_round (- B * 0.95 * 10) / 10 \<le> - 38" by simp
  have "\<lparr>frequency = 40, gain = js_round (- B * 0.95 * 10) / 10, qfactor = 3.5, btype = Peak\<rparr>
          \<in> set (bands (generateOptimalEQ ?room ?tgt ?o))"
    using corrective_bands_returned [of ?room ?tgt ?o] c by simp
  with g show ?thesis by force
qed


end
